theory Spec2Isabelle
  imports Complex_Main
begin

section \<open>Python values used by the environment\<close>

text \<open>
  Exceptions of the Python code are values: every function that can raise returns
  \<open>py_error + 'a\<close>, with \<open>Inl\<close> for the exception. \<open>Exception_out_of_range d\<close> is the
  plain \<open>Exception\<close> raised by \<open>increment_date\<close> with the message
  "d is out of range". Strings are ASCII strings. \<open>Non_finite\<close> is not an exception:
  it marks the point where the floating-point arithmetic of the agent has produced an
  infinity or a NaN, which the numbers of this model do not include; the code goes on
  with that value.
\<close>

datatype py_error =
    ValueError
  | IndexError
  | AttributeError
  | OverflowError
  | ZeroDivisionError
  | DataNotFoundError
  | Exception_out_of_range string
  | Non_finite

subsection \<open>\<open>re.split(r"[\-]", s)\<close>, \<open>str.isdigit\<close> and \<open>int(str)\<close>\<close>

fun re_split_hyphen :: "string \<Rightarrow> string list" where
  "re_split_hyphen [] = [[]]"
| "re_split_hyphen (c # cs) =
     (if c = CHR ''-'' then [] # re_split_hyphen cs
      else (case re_split_hyphen cs of
              [] \<Rightarrow> [[c]]
            | t # ts \<Rightarrow> (c # t) # ts))"

definition is_digit_char :: "char \<Rightarrow> bool" where
  "is_digit_char c = (c \<in> set ''0123456789'')"

definition isdigit :: "string \<Rightarrow> bool" where
  "isdigit s = (s \<noteq> [] \<and> list_all is_digit_char s)"

definition digit_value :: "char \<Rightarrow> int" where
  "digit_value c = int (of_char c) - 48"

definition is_space_char :: "char \<Rightarrow> bool" where
  "is_space_char c = ((of_char c :: nat) \<in> {9, 10, 11, 12, 13, 28, 29, 30, 31, 32})"

definition strip :: "string \<Rightarrow> string" where
  "strip s = rev (dropWhile is_space_char (rev (dropWhile is_space_char s)))"

text \<open>
  The digits of an integer literal: decimal digits, with single underscores allowed
  between two digits.
\<close>

fun digits_ok :: "string \<Rightarrow> bool" where
  "digits_ok [] = False"
| "digits_ok [c] = is_digit_char c"
| "digits_ok (c # d # cs) =
     (is_digit_char c \<and>
      (if d = CHR ''_'' then cs \<noteq> [] \<and> digits_ok cs else digits_ok (d # cs)))"

definition digits_value :: "string \<Rightarrow> int" where
  "digits_value s = foldl (\<lambda>n c. 10 * n + digit_value c) 0 (filter (\<lambda>c. c \<noteq> CHR ''_'') s)"

definition parse_digits :: "string \<Rightarrow> py_error + int" where
  "parse_digits s = (if digits_ok s then Inr (digits_value s) else Inl ValueError)"

definition py_int :: "string \<Rightarrow> py_error + int" where
  "py_int s =
     (case strip s of
        [] \<Rightarrow> Inl ValueError
      | c # r \<Rightarrow>
          if c = CHR ''-'' then
            (case parse_digits r of Inl e \<Rightarrow> Inl e | Inr n \<Rightarrow> Inr (- n))
          else if c = CHR ''+'' then parse_digits r
          else parse_digits (c # r))"

text \<open>\<open>[int(x) for x in xs]\<close>: the first failing conversion raises.\<close>

fun int_list :: "string list \<Rightarrow> py_error + int list" where
  "int_list [] = Inr []"
| "int_list (x # xs) =
     (case py_int x of
        Inl e \<Rightarrow> Inl e
      | Inr n \<Rightarrow> (case int_list xs of Inl e \<Rightarrow> Inl e | Inr ns \<Rightarrow> Inr (n # ns)))"

subsection \<open>\<open>datetime.date\<close>\<close>

text \<open>
  The standard library's date: a day of the proleptic Gregorian calendar between
  0001-01-01 (ordinal 1) and 9999-12-31 (ordinal 3652059).
\<close>

record date =
  year :: int
  month :: int
  day :: int

definition is_leap :: "int \<Rightarrow> bool" where
  "is_leap y = (y mod 4 = 0 \<and> (y mod 100 \<noteq> 0 \<or> y mod 400 = 0))"

definition days_before_year :: "int \<Rightarrow> int" where
  "days_before_year y = (y - 1) * 365 + (y - 1) div 4 - (y - 1) div 100 + (y - 1) div 400"

definition DAYS_IN_MONTH :: "int list" where
  "DAYS_IN_MONTH = [-1, 31, 28, 31, 30, 31, 30, 31, 31, 30, 31, 30, 31]"

definition DAYS_BEFORE_MONTH :: "int list" where
  "DAYS_BEFORE_MONTH = [-1, 0, 31, 59, 90, 120, 151, 181, 212, 243, 273, 304, 334]"

definition days_in_month :: "int \<Rightarrow> int \<Rightarrow> int" where
  "days_in_month y m = (if m = 2 \<and> is_leap y then 29 else DAYS_IN_MONTH ! nat m)"

definition days_before_month :: "int \<Rightarrow> int \<Rightarrow> int" where
  "days_before_month y m =
     DAYS_BEFORE_MONTH ! nat m + (if m > 2 \<and> is_leap y then 1 else 0)"

definition ymd2ord :: "int \<Rightarrow> int \<Rightarrow> int \<Rightarrow> int" where
  "ymd2ord y m d = days_before_year y + days_before_month y m + d"

definition MAXORDINAL :: int where
  "MAXORDINAL = 3652059"

definition ord2ymd :: "int \<Rightarrow> date" where
  "ord2ymd n0 =
     (let n = n0 - 1;
          n400 = n div 146097; n = n mod 146097;
          y = n400 * 400 + 1;
          n100 = n div 36524; n = n mod 36524;
          n4 = n div 1461; n = n mod 1461;
          n1 = n div 365; n = n mod 365;
          y = y + n100 * 100 + n4 * 4 + n1
      in if n1 = 4 \<or> n100 = 4 then \<lparr>year = y - 1, month = 12, day = 31\<rparr>
         else
           let leapyear = (n1 = 3 \<and> (n4 \<noteq> 24 \<or> n100 = 3));
               m = (n + 50) div 32;
               preceding = DAYS_BEFORE_MONTH ! nat m + (if m > 2 \<and> leapyear then 1 else 0)
           in if preceding > n then
                \<lparr>year = y, month = m - 1,
                 day = n - (preceding - (DAYS_IN_MONTH ! nat (m - 1)
                                          + (if m - 1 = 2 \<and> leapyear then 1 else 0))) + 1\<rparr>
              else \<lparr>year = y, month = m, day = n - preceding + 1\<rparr>)"

text \<open>\<open>datetime.date(year, month, day)\<close> checks its arguments.\<close>

definition date_new :: "int \<Rightarrow> int \<Rightarrow> int \<Rightarrow> py_error + date" where
  "date_new y m d =
     (if \<not> (1 \<le> y \<and> y \<le> 9999) then Inl ValueError
      else if \<not> (1 \<le> m \<and> m \<le> 12) then Inl ValueError
      else if \<not> (1 \<le> d \<and> d \<le> days_in_month y m) then Inl ValueError
      else Inr \<lparr>year = y, month = m, day = d\<rparr>)"

definition toordinal :: "date \<Rightarrow> int" where
  "toordinal dt = ymd2ord (year dt) (month dt) (day dt)"

text \<open>\<open>(d2 - d1).days\<close>\<close>

definition date_diff_days :: "date \<Rightarrow> date \<Rightarrow> int" where
  "date_diff_days d2 d1 = toordinal d2 - toordinal d1"

text \<open>\<open>d + datetime.timedelta(n)\<close>: the timedelta and the resulting date are range checked.\<close>

definition date_add_days :: "date \<Rightarrow> int \<Rightarrow> py_error + date" where
  "date_add_days dt n =
     (if \<bar>n\<bar> > 999999999 then Inl OverflowError
      else let ordinal = toordinal dt + n
           in if 0 < ordinal \<and> ordinal \<le> MAXORDINAL then Inr (ord2ymd ordinal)
              else Inl OverflowError)"

definition digit_char :: "int \<Rightarrow> char" where
  "digit_char n = ''0123456789'' ! nat n"

text \<open>\<open>str(d)\<close>, that is \<open>"%04d-%02d-%02d"\<close> for a year of at most four digits.\<close>

definition date_str :: "date \<Rightarrow> string" where
  "date_str dt =
     [digit_char (year dt div 1000), digit_char (year dt div 100 mod 10),
      digit_char (year dt div 10 mod 10), digit_char (year dt mod 10), CHR ''-'',
      digit_char (month dt div 10), digit_char (month dt mod 10), CHR ''-'',
      digit_char (day dt div 10), digit_char (day dt mod 10)]"

text \<open>\<open>xs[i]\<close> for a literal index \<open>i \<ge> 0\<close>.\<close>

definition py_index :: "'a list \<Rightarrow> nat \<Rightarrow> py_error + 'a" where
  "py_index xs i = (if i < length xs then Inr (xs ! i) else Inl IndexError)"

text \<open>
  The recurring \<open>datetime.date(arr[2], arr[0], arr[1])\<close>: the arguments are evaluated
  left to right, then the date is built.
\<close>

definition date_of_arr :: "int list \<Rightarrow> py_error + date" where
  "date_of_arr arr =
     (case py_index arr 2 of Inl e \<Rightarrow> Inl e | Inr y \<Rightarrow>
      case py_index arr 0 of Inl e \<Rightarrow> Inl e | Inr m \<Rightarrow>
      case py_index arr 1 of Inl e \<Rightarrow> Inl e | Inr d \<Rightarrow>
      date_new y m d)"

section \<open>The trading environment (\<open>StockEnv\<close>)\<close>

text \<open>
  Modelled from the spec: the class \<open>State\<close> (module \<open>State\<close>, imported by the
  environment) is not among the sources. The spec's PortfolioState holds the cash, the
  holdings per stock and the current date and time; \<open>advance_state\<close> and \<open>reset\<close>
  store their arguments in it.
\<close>

record State =
  cash :: real
  holdings :: "real list"
  current_date :: string
  current_time :: string

text \<open>Modelled from the spec: \<open>State(stock_names, money, shares, date, time)\<close>.\<close>

definition State_new :: "real \<Rightarrow> real list \<Rightarrow> string \<Rightarrow> string \<Rightarrow> State" where
  "State_new money shares d t =
     \<lparr>cash = money, holdings = shares, current_date = d, current_time = t\<rparr>"

text \<open>Modelled from the spec: \<open>State.reset\<close> reinitialises the state in place.\<close>

definition State_reset :: "State \<Rightarrow> real \<Rightarrow> real list \<Rightarrow> string \<Rightarrow> string \<Rightarrow> State" where
  "State_reset st money shares d t =
     st\<lparr>cash := money, holdings := shares, current_date := d, current_time := t\<rparr>"

text \<open>Modelled from the spec: \<open>State.advance_state\<close> commits the post-step values.\<close>

definition advance_state :: "State \<Rightarrow> real \<Rightarrow> real list \<Rightarrow> string \<Rightarrow> string \<Rightarrow> State" where
  "advance_state st remaining_money new_holdings d t =
     st\<lparr>cash := remaining_money, holdings := new_holdings, current_date := d,
        current_time := t\<rparr>"

text \<open>
  \<open>np.sum(holdings * prices)\<close> on two vectors with one entry per stock; arrays of
  different lengths do not multiply. Floating-point numbers are modelled as reals.
\<close>

definition np_sum_mult :: "real list \<Rightarrow> real list \<Rightarrow> py_error + real" where
  "np_sum_mult hs ps =
     (if length hs = length ps then Inr (sum_list (map2 (*) hs ps)) else Inl ValueError)"

text \<open>
  The price lookup \<open>State.get_stock_prices(date, time)\<close> reads the price files; it is a
  parameter \<open>gsp\<close> of the model, as is \<open>State.get_new_holdings(action, prices)\<close>, the
  parameter \<open>gnh\<close>.

  Modelled from the spec: \<open>State.calculate_portfolio_value\<close> is the cash plus the value
  of the holdings at the prices of the state's date and time.
\<close>

type_synonym price_lookup = "string \<Rightarrow> string \<Rightarrow> py_error + real list"

definition State_calculate_portfolio_value :: "price_lookup \<Rightarrow> State \<Rightarrow> py_error + real" where
  "State_calculate_portfolio_value gsp st =
     (case gsp (current_date st) (current_time st) of
        Inl e \<Rightarrow> Inl e
      | Inr ps \<Rightarrow>
          (case np_sum_mult (holdings st) ps of
             Inl e \<Rightarrow> Inl e
           | Inr v \<Rightarrow> Inr (cash st + v)))"

record StockEnv =
  random_start :: bool
  valid_dates :: "string list"
  number_of_stocks :: nat
  stock_names :: "string list"
  max_epochs :: int
  start_date :: string
  end_date :: string
  starting_amount_lower :: int
  starting_amount_upper :: int
  starting_amount :: real
  epochs :: int
  state :: State

subsection \<open>\<open>initialize_date\<close>\<close>

text \<open>
  The validation loop over \<open>zip(start_arr, end_arr)\<close> either executes
  \<open>return date_is_valid\<close> or runs to its end with the current \<open>date_is_valid\<close>.
\<close>

datatype loop_exit = Return bool | Fall_through bool

fun validate_loop :: "(string \<times> string) list \<Rightarrow> bool \<Rightarrow> py_error + loop_exit" where
  "validate_loop [] date_is_valid = Inr (Fall_through date_is_valid)"
| "validate_loop ((x, y) # rest) date_is_valid =
     (let v = (isdigit x \<and> isdigit y \<and> date_is_valid) in
      if v then
        (case py_int x of
           Inl e \<Rightarrow> Inl e
         | Inr nx \<Rightarrow>
             if nx > 0 then
               (case py_int y of
                  Inl e \<Rightarrow> Inl e
                | Inr ny \<Rightarrow> validate_loop rest (ny > 0))
             else validate_loop rest False)
      else Inr (Return v))"

text \<open>
  The method either returns a value without touching the object, or assigns
  \<open>max_epochs\<close>, \<open>start_date\<close> and \<open>end_date\<close> (and returns \<open>None\<close>).
\<close>

datatype init_result = Returned bool | Assigned int string string

definition initialize_date :: "string \<Rightarrow> string \<Rightarrow> py_error + init_result" where
  "initialize_date start_date' end_date' =
     (let start_arr = re_split_hyphen start_date';
          end_arr = re_split_hyphen end_date'
      in case validate_loop (zip start_arr end_arr) True of
           Inl e \<Rightarrow> Inl e
         | Inr (Return b) \<Rightarrow> Inr (Returned b)
         | Inr (Fall_through date_is_valid) \<Rightarrow>
             (case int_list (re_split_hyphen start_date') of Inl e \<Rightarrow> Inl e | Inr date1 \<Rightarrow>
              case int_list (re_split_hyphen end_date') of Inl e \<Rightarrow> Inl e | Inr date2 \<Rightarrow>
              case date_of_arr date1 of Inl e \<Rightarrow> Inl e | Inr date1_obj \<Rightarrow>
              case date_of_arr date2 of Inl e \<Rightarrow> Inl e | Inr date2_obj \<Rightarrow>
              let epochs' = date_diff_days date2_obj date1_obj
              in if \<not> (date_is_valid \<and> epochs' \<ge> 0) then Inl ValueError
                 else Inr (Assigned (epochs' * 2) start_date' end_date')))"

subsection \<open>\<open>is_done\<close>, \<open>get_date_and_time\<close>, \<open>increment_date\<close>\<close>

definition is_done :: "StockEnv \<Rightarrow> bool" where
  "is_done env = (epochs env \<ge> max_epochs env)"

text \<open>\<open>datetime.date(start_arr[2], start_arr[0], start_arr[1])\<close> of the start date.\<close>

definition parse_date :: "string \<Rightarrow> py_error + date" where
  "parse_date s =
     (case int_list (re_split_hyphen s) of
        Inl e \<Rightarrow> Inl e
      | Inr start_arr \<Rightarrow> date_of_arr start_arr)"

definition start_date_obj :: "StockEnv \<Rightarrow> py_error + date" where
  "start_date_obj env = parse_date (start_date env)"

definition get_date_and_time :: "StockEnv \<Rightarrow> py_error + string \<times> string" where
  "get_date_and_time env =
     (let time = (if epochs env mod 2 = 0 then ''Open'' else ''Close'') in
      case start_date_obj env of
        Inl e \<Rightarrow> Inl e
      | Inr d0 \<Rightarrow>
          (case date_add_days d0 (epochs env div 2) of
             Inl e \<Rightarrow> Inl e
           | Inr date_obj \<Rightarrow> Inr (date_str date_obj, time)))"

text \<open>\<open>str(date_obj + datetime.timedelta((self.epochs + incr) // 2))\<close>\<close>

definition adjusted_date_at :: "date \<Rightarrow> int \<Rightarrow> int \<Rightarrow> py_error + string" where
  "adjusted_date_at date_obj ep incr =
     (case date_add_days date_obj ((ep + incr) div 2) of
        Inl e \<Rightarrow> Inl e
      | Inr d \<Rightarrow> Inr (date_str d))"

text \<open>
  The \<open>while\<close> loop of \<open>increment_date\<close>, entered with the current \<open>incr\<close> and
  \<open>adjusted_date\<close>; it returns the final \<open>incr\<close>.
\<close>

function search_loop :: "string list \<Rightarrow> date \<Rightarrow> int \<Rightarrow> int \<Rightarrow> string \<Rightarrow> py_error + int" where
  "search_loop valid date_obj ep incr adjusted_date =
     (if adjusted_date \<in> set valid then Inr incr
      else
        (case adjusted_date_at date_obj ep (incr + 1) of
           Inl e \<Rightarrow> Inl e
         | Inr adjusted_date' \<Rightarrow>
             if incr + 1 \<ge> 20 then Inl (Exception_out_of_range adjusted_date')
             else search_loop valid date_obj ep (incr + 1) adjusted_date'))"
  by pat_completeness auto
termination
  by (relation "measure (\<lambda>(valid, date_obj, ep, incr, adjusted_date). nat (20 - incr))") auto

declare search_loop.simps [simp del]

definition increment_date :: "StockEnv \<Rightarrow> py_error + StockEnv" where
  "increment_date env =
     (case start_date_obj env of
        Inl e \<Rightarrow> Inl e
      | Inr date_obj \<Rightarrow>
          (case py_index (stock_names env) 0 of
             Inl e \<Rightarrow> Inl e
           | Inr s \<Rightarrow>
               (case adjusted_date_at date_obj (epochs env) 1 of
                  Inl e \<Rightarrow> Inl e
                | Inr adjusted_date \<Rightarrow>
                    (case search_loop (valid_dates env) date_obj (epochs env) 1 adjusted_date of
                       Inl e \<Rightarrow> Inl e
                     | Inr incr \<Rightarrow> Inr (env\<lparr>epochs := epochs env + incr\<rparr>)))))"

subsection \<open>\<open>calculate_reward\<close> and \<open>step\<close>\<close>

definition calculate_reward ::
  "StockEnv \<Rightarrow> real list \<Rightarrow> real \<Rightarrow> real list \<Rightarrow> py_error + real" where
  "calculate_reward env new_holdings remaining_money stock_prices_new =
     (case np_sum_mult new_holdings stock_prices_new of
        Inl e \<Rightarrow> Inl e
      | Inr v \<Rightarrow> Inr (remaining_money + v - starting_amount env))"

type_synonym new_holdings_fn = "State \<Rightarrow> real list \<Rightarrow> real list \<Rightarrow> py_error + real list \<times> real"

text \<open>
  \<open>step\<close> returns \<open>(self.state, reward, self.is_done())\<close>; the state is the \<open>state\<close>
  field of the returned environment.
\<close>

definition step ::
  "price_lookup \<Rightarrow> new_holdings_fn \<Rightarrow> StockEnv \<Rightarrow> real list
     \<Rightarrow> py_error + StockEnv \<times> real \<times> bool" where
  "step gsp gnh env action =
     (case get_date_and_time env of Inl e \<Rightarrow> Inl e | Inr (current_date', current_time') \<Rightarrow>
      case gsp current_date' current_time' of Inl e \<Rightarrow> Inl e | Inr stock_prices_old \<Rightarrow>
      case gnh (state env) action stock_prices_old of
        Inl e \<Rightarrow> Inl e
      | Inr (new_holdings, remaining_money) \<Rightarrow>
      case increment_date env of Inl e \<Rightarrow> Inl e | Inr env1 \<Rightarrow>
      case get_date_and_time env1 of Inl e \<Rightarrow> Inl e | Inr (new_date, new_time) \<Rightarrow>
      case gsp new_date new_time of Inl e \<Rightarrow> Inl e | Inr stock_prices_new \<Rightarrow>
      let env2 = env1\<lparr>state :=
                   advance_state (state env1) remaining_money new_holdings new_date new_time\<rparr>
      in case calculate_reward env2 new_holdings remaining_money stock_prices_new of
           Inl e \<Rightarrow> Inl e
         | Inr reward \<Rightarrow> Inr (env2, reward, is_done env2))"

text \<open>A sequence of \<open>step\<close> calls, one per action.\<close>

fun steps ::
  "price_lookup \<Rightarrow> new_holdings_fn \<Rightarrow> StockEnv \<Rightarrow> real list list \<Rightarrow> py_error + StockEnv" where
  "steps gsp gnh env [] = Inr env"
| "steps gsp gnh env (a # as) =
     (case step gsp gnh env a of
        Inl e \<Rightarrow> Inl e
      | Inr (env', reward, done') \<Rightarrow> steps gsp gnh env' as)"

subsection \<open>\<open>reset\<close> and the constructor\<close>

text \<open>
  The random numbers that a call consumes are an argument: \<open>money_draw\<close> is the result
  of \<open>random.randint(lower, upper)\<close>, \<open>shares_draw i\<close> that of the \<open>i\<close>-th
  \<open>random.randint(0, 10)\<close>, \<open>epoch_draw\<close> that of the starting epoch.
  \<open>random.randint(a, b)\<close> raises \<open>ValueError\<close> on an empty range.
\<close>

record draws =
  money_draw :: int
  shares_draw :: "nat \<Rightarrow> int"
  epoch_draw :: int

definition randint :: "int \<Rightarrow> int \<Rightarrow> int \<Rightarrow> py_error + int" where
  "randint a b drawn = (if a \<le> b then Inr drawn else Inl ValueError)"

text \<open>\<open>int(days * 0.2)\<close>: the product truncated towards zero.\<close>

definition int_days_times_02 :: "int \<Rightarrow> int" where
  "int_days_times_02 days = (if days \<ge> 0 then days div 5 else - ((- days) div 5))"

definition initialize_starting_epoch :: "draws \<Rightarrow> StockEnv \<Rightarrow> py_error + StockEnv" where
  "initialize_starting_epoch dr env =
     (if random_start env then
        (case int_list (re_split_hyphen (start_date env)) of Inl e \<Rightarrow> Inl e | Inr date1 \<Rightarrow>
         case int_list (re_split_hyphen (end_date env)) of Inl e \<Rightarrow> Inl e | Inr date2 \<Rightarrow>
         case date_of_arr date1 of Inl e \<Rightarrow> Inl e | Inr date1_obj \<Rightarrow>
         case date_of_arr date2 of Inl e \<Rightarrow> Inl e | Inr date2_obj \<Rightarrow>
         case randint (- 1) (int_days_times_02 (date_diff_days date2_obj date1_obj))
                (epoch_draw dr) of
           Inl e \<Rightarrow> Inl e
         | Inr ep \<Rightarrow> increment_date (env\<lparr>epochs := ep\<rparr>))
      else increment_date (env\<lparr>epochs := - 1\<rparr>))"

text \<open>The starting money and shares chosen at the beginning of \<open>reset\<close>.\<close>

definition starting_money_and_shares ::
  "draws \<Rightarrow> bool \<Rightarrow> int \<Rightarrow> int \<Rightarrow> nat \<Rightarrow> py_error + real \<times> real list" where
  "starting_money_and_shares dr random_start' lower upper n =
     (if random_start' then
        (case randint lower upper (money_draw dr) of
           Inl e \<Rightarrow> Inl e
         | Inr m \<Rightarrow> Inr (real_of_int m, map (\<lambda>i. real_of_int (shares_draw dr i)) [0..<n]))
      else Inr (real_of_int upper, replicate n 0))"

definition reset :: "price_lookup \<Rightarrow> draws \<Rightarrow> StockEnv \<Rightarrow> bool \<Rightarrow> py_error + StockEnv" where
  "reset gsp dr env init =
     (case starting_money_and_shares dr (random_start env) (starting_amount_lower env)
             (starting_amount_upper env) (number_of_stocks env) of
        Inl e \<Rightarrow> Inl e
      | Inr (starting_money, starting_shares) \<Rightarrow>
      case initialize_starting_epoch dr env of Inl e \<Rightarrow> Inl e | Inr env1 \<Rightarrow>
      case get_date_and_time env1 of Inl e \<Rightarrow> Inl e | Inr (current_date', current_time') \<Rightarrow>
      let st = (if init then State_new starting_money starting_shares current_date' current_time'
                else State_reset (state env1) starting_money starting_shares
                       current_date' current_time')
      in case State_calculate_portfolio_value gsp st of
           Inl e \<Rightarrow> Inl e
         | Inr v \<Rightarrow> Inr (env1\<lparr>state := st, starting_amount := v\<rparr>))"

text \<open>
  The constructor. \<open>valid\<close> is the index of dates read from the price file of SPY. The
  value of \<open>initialize_date\<close> is built into a tuple with a string and dropped. When
  \<open>initialize_date\<close> has returned without assigning \<open>self.start_date\<close>, the call
  \<open>self.reset(init=True)\<close> draws the starting money and shares and then fails on reading
  \<open>self.start_date\<close>. The attributes \<open>epochs\<close> and \<open>state\<close> do not exist before
  \<open>reset\<close> assigns them, and \<open>reset(init=True)\<close> does not read them: the record carries
  \<open>0\<close> and an empty state in their place. The Box of the action space is not modelled.
\<close>

definition StockEnv_init ::
  "price_lookup \<Rightarrow> draws \<Rightarrow> string list \<Rightarrow> string list \<Rightarrow> string \<Rightarrow> string \<Rightarrow> int \<Rightarrow> int \<Rightarrow> bool
     \<Rightarrow> py_error + StockEnv" where
  "StockEnv_init gsp dr valid stock_names' start_date' end_date' lower upper random_start' =
     (case initialize_date start_date' end_date' of
        Inl e \<Rightarrow> Inl e
      | Inr (Returned b) \<Rightarrow>
          (case starting_money_and_shares dr random_start' lower upper (length stock_names') of
             Inl e \<Rightarrow> Inl e
           | Inr ms \<Rightarrow> Inl AttributeError)
      | Inr (Assigned max_epochs' sd ed) \<Rightarrow>
          reset gsp dr
            \<lparr>random_start = random_start', valid_dates = valid,
             number_of_stocks = length stock_names', stock_names = stock_names',
             max_epochs = max_epochs', start_date = sd, end_date = ed,
             starting_amount_lower = lower, starting_amount_upper = upper,
             starting_amount = real_of_int upper, epochs = 0,
             state = State_new 0 [] [] []\<rparr> True)"

section \<open>The replay buffer\<close>

text \<open>
  The five arrays have \<open>max_size\<close> rows; a row of \<open>state\<close> and \<open>next_state\<close> has
  \<open>state_dim\<close> entries, a row of \<open>action\<close> has \<open>action_dim\<close>, a row of \<open>reward\<close>
  and \<open>not_done\<close> has one.
\<close>

record ReplayBuffer =
  max_size :: nat
  state_dim :: nat
  action_dim :: nat
  ptr :: nat
  buf_size :: nat
  buf_action :: "real list list"
  buf_state :: "real list list"
  buf_next_state :: "real list list"
  buf_reward :: "real list list"
  buf_not_done :: "real list list"

definition ReplayBuffer_init :: "nat \<Rightarrow> nat \<Rightarrow> nat \<Rightarrow> ReplayBuffer" where
  "ReplayBuffer_init state_dim' action_dim' max_size' =
     \<lparr>max_size = max_size', state_dim = state_dim', action_dim = action_dim',
      ptr = 0, buf_size = 0,
      buf_action = replicate max_size' (replicate action_dim' 0),
      buf_state = replicate max_size' (replicate state_dim' 0),
      buf_next_state = replicate max_size' (replicate state_dim' 0),
      buf_reward = replicate max_size' [0],
      buf_not_done = replicate max_size' [0]\<rparr>"

text \<open>
  \<open>arr[i] = v\<close> for a two-dimensional array and a vector \<open>v\<close>: the index must be in
  range, and \<open>v\<close> must have the length of a row or one entry, which is then repeated.
\<close>

definition fits :: "nat \<Rightarrow> real list \<Rightarrow> bool" where
  "fits width v = (length v = width \<or> length v = 1)"

definition broadcast_row :: "nat \<Rightarrow> real list \<Rightarrow> real list" where
  "broadcast_row width v = (if length v = width then v else replicate width (hd v))"

definition set_row :: "real list list \<Rightarrow> nat \<Rightarrow> nat \<Rightarrow> real list \<Rightarrow> py_error + real list list" where
  "set_row arr width i v =
     (if \<not> i < length arr then Inl IndexError
      else if fits width v then Inr (arr[i := broadcast_row width v])
      else Inl ValueError)"

record transition =
  t_state :: "real list"
  t_action :: "real list"
  t_next_state :: "real list"
  t_reward :: real
  t_done :: real

definition add :: "ReplayBuffer \<Rightarrow> transition \<Rightarrow> py_error + ReplayBuffer" where
  "add b t =
     (case set_row (buf_next_state b) (state_dim b) (ptr b) (t_next_state t) of
        Inl e \<Rightarrow> Inl e | Inr next_state' \<Rightarrow>
      case set_row (buf_action b) (action_dim b) (ptr b) (t_action t) of
        Inl e \<Rightarrow> Inl e | Inr action' \<Rightarrow>
      case set_row (buf_state b) (state_dim b) (ptr b) (t_state t) of
        Inl e \<Rightarrow> Inl e | Inr state' \<Rightarrow>
      case set_row (buf_reward b) 1 (ptr b) [t_reward t] of
        Inl e \<Rightarrow> Inl e | Inr reward' \<Rightarrow>
      case set_row (buf_not_done b) 1 (ptr b) [1 - t_done t] of
        Inl e \<Rightarrow> Inl e | Inr not_done' \<Rightarrow>
      if max_size b = 0 then Inl ZeroDivisionError
      else Inr (b\<lparr>buf_next_state := next_state', buf_action := action', buf_state := state',
                  buf_reward := reward', buf_not_done := not_done',
                  ptr := (ptr b + 1) mod max_size b,
                  buf_size := min (buf_size b + 1) (max_size b)\<rparr>))"

text \<open>A sequence of \<open>add\<close> calls.\<close>

fun add_all :: "ReplayBuffer \<Rightarrow> transition list \<Rightarrow> py_error + ReplayBuffer" where
  "add_all b [] = Inr b"
| "add_all b (t # ts) = (case add b t of Inl e \<Rightarrow> Inl e | Inr b' \<Rightarrow> add_all b' ts)"

text \<open>
  \<open>sample\<close>: \<open>np.random.randint(0, size, size=batch_size)\<close> raises \<open>ValueError\<close> on an
  empty buffer; otherwise each index is a random number reduced to \<open>[0, size)\<close>. The
  random numbers \<open>raws\<close>, one per element of the batch, are an argument. The batch is
  the list of its rows \<open>(state, action, next_state, reward, not_done)\<close>.
\<close>

type_synonym batch_row = "real list \<times> real list \<times> real list \<times> real list \<times> real list"

text \<open>The five rows at index \<open>i\<close>.\<close>

definition row_at :: "ReplayBuffer \<Rightarrow> nat \<Rightarrow> batch_row" where
  "row_at b i =
     (buf_state b ! i, buf_action b ! i, buf_next_state b ! i, buf_reward b ! i,
      buf_not_done b ! i)"

definition sample :: "ReplayBuffer \<Rightarrow> nat list \<Rightarrow> py_error + batch_row list" where
  "sample b raws =
     (if buf_size b = 0 then Inl ValueError
      else Inr (map (\<lambda>r. row_at b (r mod buf_size b)) raws))"

text \<open>
  The rows that \<open>add\<close> stores for a transition, in a buffer of the given dimensions,
  and the transitions that such a buffer can store.
\<close>

definition stored_rows :: "nat \<Rightarrow> nat \<Rightarrow> transition \<Rightarrow> batch_row" where
  "stored_rows sd ad t =
     (broadcast_row sd (t_state t), broadcast_row ad (t_action t),
      broadcast_row sd (t_next_state t), [t_reward t], [1 - t_done t])"

definition storable :: "nat \<Rightarrow> nat \<Rightarrow> transition \<Rightarrow> bool" where
  "storable sd ad t = (fits sd (t_state t) \<and> fits ad (t_action t) \<and> fits sd (t_next_state t))"

section \<open>The agent (\<open>DDPG\<close>)\<close>

text \<open>
  The parameters of a network are the list of its numbers; a tensor of finite
  floating-point numbers is modelled as the list of the reals they denote. The soft
  update of the targets is arithmetic of the code itself and is modelled with the
  rounding of its number formats. What the neural-network library computes is
  a parameter of the model: \<open>actor_forward\<close> and \<open>critic_forward\<close> evaluate a network
  with given parameters on one row of a batch (the layers of \<open>Actor\<close> and \<open>Critic\<close> act
  on each row separately), \<open>critic_optimize\<close> is the critic's optimiser step on the
  mean squared error between \<open>critic(state, action)\<close> and the targets, and
  \<open>actor_optimize\<close> is the actor's optimiser step on \<open>-critic.Q1(state, actor(state)).mean()\<close>.
\<close>

record 'o DDPG =
  actor :: "real list"
  actor_target :: "real list"
  actor_optimizer :: 'o
  critic :: "real list"
  critic_target :: "real list"
  critic_optimizer :: 'o
  max_action :: real
  discount :: real
  tau :: real
  policy_noise :: real
  noise_clip :: real
  policy_freq :: int
  total_it :: int

record 'o networks =
  actor_forward :: "real list \<Rightarrow> real list \<Rightarrow> real list"
  critic_forward :: "real list \<Rightarrow> real list \<Rightarrow> real list \<Rightarrow> real list"
  critic_optimize ::
    "'o \<Rightarrow> real list \<Rightarrow> (real list \<times> real list \<times> real list) list \<Rightarrow> 'o \<times> real list"
  actor_optimize :: "'o \<Rightarrow> real list \<Rightarrow> real list \<Rightarrow> real list list \<Rightarrow> 'o \<times> real list"

definition select_action :: "'o networks \<Rightarrow> 'o DDPG \<Rightarrow> real list \<Rightarrow> real list" where
  "select_action nets ag s = actor_forward nets (actor ag) s"

text \<open>
  The target of one row of the batch, as \<open>train\<close> computes it under \<open>torch.no_grad()\<close>:
  \<open>next_action = self.actor_target(state)\<close>, then
  \<open>target_Q = self.critic_target(next_state, next_action)\<close> and
  \<open>target_Q = reward + not_done * self.discount * target_Q\<close>.
\<close>

definition target_Q_row :: "'o networks \<Rightarrow> 'o DDPG \<Rightarrow> batch_row \<Rightarrow> real list" where
  "target_Q_row nets ag row =
     (case row of (state', action', next_state', reward', not_done') \<Rightarrow>
        let next_action = actor_forward nets (actor_target ag) state';
            target_Q = critic_forward nets (critic_target ag) next_state' next_action
        in map2 (+) reward' (map2 (*) (map (\<lambda>x. x * discount ag) not_done') target_Q))"

text \<open>
  The target as the specification words it: the target actor is applied to the next
  state of the row.
\<close>

definition target_Q_row_spec :: "'o networks \<Rightarrow> 'o DDPG \<Rightarrow> batch_row \<Rightarrow> real list" where
  "target_Q_row_spec nets ag row =
     (case row of (state', action', next_state', reward', not_done') \<Rightarrow>
        let target_action = actor_forward nets (actor_target ag) next_state';
            target_Q = critic_forward nets (critic_target ag) next_state' target_action
        in map2 (+) reward' (map2 (*) (map (\<lambda>x. x * discount ag) not_done') target_Q))"

subsection \<open>Floating-point arithmetic\<close>

text \<open>
  A finite binary floating-point number is the real number it denotes. \<open>round_float p
  emin emax x\<close> is \<open>x\<close> rounded to the nearest number with \<open>p\<close> significant bits and an
  exponent from \<open>emin\<close> to \<open>emax\<close>, ties to the even significand (IEEE 754, the rounding
  of every operation of the processor); it is \<open>None\<close> when the rounded number is beyond the
  largest finite one, where the operation gives an infinity. \<open>float_exponent\<close> is the
  exponent of \<open>x\<close>, the largest \<open>e\<close> with \<open>2 ^ e \<le> \<bar>x\<bar>\<close>, kept between \<open>emin\<close> and \<open>emax\<close>
  (numbers below \<open>2 ^ emin\<close> are subnormal). \<open>fl32\<close> rounds to binary32, the format of
  \<open>torch.FloatTensor\<close> and of the parameters of the networks, \<open>fl64\<close> to binary64, the
  format of a Python \<open>float\<close>.
\<close>

definition pow2 :: "int \<Rightarrow> real" where
  "pow2 e = (if 0 \<le> e then 2 ^ nat e else 1 / 2 ^ nat (- e))"

fun exponent_up :: "nat \<Rightarrow> int \<Rightarrow> real \<Rightarrow> int" where
  "exponent_up 0 e x = e"
| "exponent_up (Suc n) e x = (if pow2 (e + 1) \<le> x then exponent_up n (e + 1) x else e)"

fun exponent_down :: "nat \<Rightarrow> int \<Rightarrow> real \<Rightarrow> int" where
  "exponent_down 0 e x = e"
| "exponent_down (Suc n) e x = (if pow2 e \<le> x then e else exponent_down n (e - 1) x)"

definition float_exponent :: "int \<Rightarrow> int \<Rightarrow> real \<Rightarrow> int" where
  "float_exponent emin emax x =
     (if 1 \<le> \<bar>x\<bar> then exponent_up (nat emax) 0 \<bar>x\<bar>
      else exponent_down (nat (- emin)) 0 \<bar>x\<bar>)"

definition round_half_even :: "real \<Rightarrow> int" where
  "round_half_even y =
     (let n = \<lfloor>y\<rfloor>; d = y - of_int n
      in if d < 1 / 2 then n else if 1 / 2 < d then n + 1 else if even n then n else n + 1)"

definition round_float :: "nat \<Rightarrow> int \<Rightarrow> int \<Rightarrow> real \<Rightarrow> real option" where
  "round_float p emin emax x =
     (let q = pow2 (float_exponent emin emax x - (int p - 1));
          r = of_int (round_half_even (x / q)) * q
      in if pow2 (emax + 1) \<le> \<bar>r\<bar> then None else Some r)"

definition fl32 :: "real \<Rightarrow> real option" where
  "fl32 = round_float 24 (- 126) 127"

definition fl64 :: "real \<Rightarrow> real option" where
  "fl64 = round_float 53 (- 1022) 1023"

subsection \<open>The soft update of the targets and \<open>train\<close>\<close>

text \<open>
  \<open>self.tau * param.data + (1 - self.tau) * target_param.data\<close> for one element of the
  two tensors. \<open>self.tau\<close> is a Python \<open>float\<close>, so \<open>1 - self.tau\<close> is a binary64
  subtraction. A Python \<open>float\<close> that multiplies a float32 tensor is converted to
  float32, and each element of the two products and of the sum is a float32 number, the
  rounded value of the exact product or sum of its operands. An operation on an
  infinity gives an infinity or a NaN, so the result is \<open>None\<close> as soon as one rounding is.
\<close>

definition soft_update_param :: "real \<Rightarrow> real \<Rightarrow> real \<Rightarrow> real option" where
  "soft_update_param tau' param target_param =
     (case fl32 tau' of None \<Rightarrow> None | Some t \<Rightarrow>
      case fl64 (1 - tau') of None \<Rightarrow> None | Some s64 \<Rightarrow>
      case fl32 s64 of None \<Rightarrow> None | Some s \<Rightarrow>
      case fl32 (t * param) of None \<Rightarrow> None | Some a \<Rightarrow>
      case fl32 (s * target_param) of None \<Rightarrow> None | Some b \<Rightarrow>
      fl32 (a + b))"

text \<open>
  The loop over \<open>zip(live.parameters(), target.parameters())\<close>: each target parameter
  that has a live partner is overwritten, the others stay.
\<close>

definition soft_update :: "real \<Rightarrow> real list \<Rightarrow> real list \<Rightarrow> real list option" where
  "soft_update tau' live target =
     (case those (map2 (soft_update_param tau') live target) of
        None \<Rightarrow> None
      | Some new \<Rightarrow> Some (new @ drop (length live) target))"

definition train ::
  "'o networks \<Rightarrow> 'o DDPG \<Rightarrow> ReplayBuffer \<Rightarrow> nat list \<Rightarrow> py_error + 'o DDPG" where
  "train nets ag replay_buffer' raws =
     (let ag1 = ag\<lparr>total_it := total_it ag + 1\<rparr> in
      case sample replay_buffer' raws of
        Inl e \<Rightarrow> Inl e
      | Inr batch \<Rightarrow>
          let target_Q = map (target_Q_row nets ag1) batch;
              (critic_opt', critic') =
                critic_optimize nets (critic_optimizer ag1) (critic ag1)
                  (map2 (\<lambda>row tq. (fst row, fst (snd row), tq)) batch target_Q);
              (actor_opt', actor') =
                actor_optimize nets (actor_optimizer ag1) (actor ag1) critic' (map fst batch)
          in case soft_update (tau ag1) critic' (critic_target ag1) of
               None \<Rightarrow> Inl Non_finite
             | Some critic_target' \<Rightarrow>
                 (case soft_update (tau ag1) actor' (actor_target ag1) of
                    None \<Rightarrow> Inl Non_finite
                  | Some actor_target' \<Rightarrow>
                      Inr (ag1\<lparr>critic := critic', critic_optimizer := critic_opt',
                                actor := actor', actor_optimizer := actor_opt',
                                critic_target := critic_target',
                                actor_target := actor_target'\<rparr>)))"

text \<open>\<open>x\<close> lies strictly between \<open>a\<close> and \<open>b\<close>.\<close>

definition strictly_between :: "real \<Rightarrow> real \<Rightarrow> real \<Rightarrow> bool" where
  "strictly_between a b x = (min a b < x \<and> x < max a b)"

section \<open>The training loop (\<open>run\<close>)\<close>

definition MAX_LIMIT :: real where
  "MAX_LIMIT = 10"

definition START_TIMESTEPS :: int where
  "START_TIMESTEPS = 2500"

text \<open>
  The variables of the loop: \<open>run_env\<close>, \<open>run_policy\<close> and \<open>run_buffer\<close> are \<open>env\<close>,
  \<open>policy\<close> and \<open>replay_buffer\<close>. The local variable \<open>state\<close> is not among them: \<open>reset\<close>
  and \<open>step\<close> return \<open>self.state\<close>, so \<open>state\<close> and \<open>next_state\<close> are the state object of
  the environment itself.
\<close>

record 'o run_vars =
  run_env :: StockEnv
  run_policy :: "'o DDPG"
  run_buffer :: ReplayBuffer
  episode_reward :: real
  episode_timesteps :: int
  episode_num :: int

text \<open>
  The random numbers of one iteration: the action sampled from the action space, the
  exploration noise, the indices for \<open>train\<close> and the numbers for \<open>reset\<close>.
\<close>

record iteration_input =
  sampled_action :: "real list"
  exploration_noise :: "real list"
  train_raws :: "nat list"
  reset_draws :: draws

text \<open>\<open>x.astype(int)\<close> truncates towards zero.\<close>

definition astype_int :: "real \<Rightarrow> real" where
  "astype_int x = real_of_int (if x \<ge> 0 then \<lfloor>x\<rfloor> else \<lceil>x\<rceil>)"

definition choose_action ::
  "(State \<Rightarrow> real list) \<Rightarrow> 'o networks \<Rightarrow> 'o run_vars \<Rightarrow> int \<Rightarrow> iteration_input \<Rightarrow> real list" where
  "choose_action to_numpy nets vars t inp =
     (if t < START_TIMESTEPS then sampled_action inp
      else map astype_int
             (map (\<lambda>x. min MAX_LIMIT (max x (- MAX_LIMIT)))
                (map2 (+) (select_action nets (run_policy vars) (to_numpy (state (run_env vars))))
                   (exploration_noise inp))))"

text \<open>
  \<open>done_bool = float(done) if episode_timesteps < env.max_epochs else 0\<close>
\<close>

definition done_bool_of :: "bool \<Rightarrow> int \<Rightarrow> int \<Rightarrow> real" where
  "done_bool_of done' episode_timesteps' max_epochs' =
     (if episode_timesteps' < max_epochs' then (if done' then 1 else 0) else 0)"

text \<open>
  One iteration of the loop \<open>for t in range(NUMBER_OF_ITERATIONS)\<close>. \<open>to_numpy\<close> is the
  method of \<open>State\<close>, a parameter. The progress bar is not modelled.
\<close>

definition run_iteration ::
  "price_lookup \<Rightarrow> new_holdings_fn \<Rightarrow> (State \<Rightarrow> real list) \<Rightarrow> 'o networks
     \<Rightarrow> 'o run_vars \<Rightarrow> int \<Rightarrow> iteration_input \<Rightarrow> py_error + 'o run_vars" where
  "run_iteration gsp gnh to_numpy nets vars t inp =
     (let timesteps = episode_timesteps vars + 1;
          action = choose_action to_numpy nets vars t inp
      in case step gsp gnh (run_env vars) action of
           Inl e \<Rightarrow> Inl e
         | Inr (env1, reward, done') \<Rightarrow>
             let done_bool = done_bool_of done' timesteps (max_epochs env1)
             in case add (run_buffer vars)
                       \<lparr>t_state = to_numpy (state env1), t_action = action,
                        t_next_state = to_numpy (state env1), t_reward = reward,
                        t_done = done_bool\<rparr> of
                  Inl e \<Rightarrow> Inl e
                | Inr buffer1 \<Rightarrow>
                    (case (if t \<ge> START_TIMESTEPS
                           then train nets (run_policy vars) buffer1 (train_raws inp)
                           else Inr (run_policy vars)) of
                       Inl e \<Rightarrow> Inl e
                     | Inr policy1 \<Rightarrow>
                         if done' then
                           (case reset gsp (reset_draws inp) env1 False of
                              Inl e \<Rightarrow> Inl e
                            | Inr env2 \<Rightarrow>
                                Inr \<lparr>run_env = env2, run_policy = policy1, run_buffer = buffer1,
                                     episode_reward = 0, episode_timesteps = 0,
                                     episode_num = episode_num vars + 1\<rparr>)
                         else
                           Inr \<lparr>run_env = env1, run_policy = policy1, run_buffer = buffer1,
                                episode_reward = episode_reward vars + reward,
                                episode_timesteps = timesteps,
                                episode_num = episode_num vars\<rparr>))"

section \<open>Auxiliary definitions for the statements\<close>

text \<open>
  The shape of a buffer with capacity \<open>c\<close>: every array has \<open>c\<close> rows and the write
  pointer is inside them.
\<close>

definition buffer_inv :: "nat \<Rightarrow> nat \<Rightarrow> nat \<Rightarrow> ReplayBuffer \<Rightarrow> bool" where
  "buffer_inv sd ad c b =
     (max_size b = c \<and> state_dim b = sd \<and> action_dim b = ad \<and>
      length (buf_state b) = c \<and> length (buf_action b) = c \<and> length (buf_next_state b) = c \<and>
      length (buf_reward b) = c \<and> length (buf_not_done b) = c \<and> ptr b < c \<and> buf_size b \<le> c)"

text \<open>
  The date string of the environment \<open>k\<close> epochs after the current one, as
  \<open>increment_date\<close> computes it for \<open>incr = k\<close>.
\<close>

definition date_at_offset :: "StockEnv \<Rightarrow> int \<Rightarrow> py_error + string" where
  "date_at_offset env k =
     (case start_date_obj env of
        Inl e \<Rightarrow> Inl e
      | Inr date_obj \<Rightarrow> adjusted_date_at date_obj (epochs env) k)"

text \<open>
  Small concrete values on which the functions are evaluated: networks with one
  parameter each on one-dimensional states and actions, whose optimiser steps add one
  to every parameter; an agent with the constructor's default \<open>discount\<close> and \<open>tau\<close>.
\<close>

definition example_networks :: "unit networks" where
  "example_networks =
     \<lparr>actor_forward = (\<lambda>params s. map (\<lambda>x. hd params * x) s),
      critic_forward = (\<lambda>params s a. [hd params * (sum_list s + sum_list a)]),
      critic_optimize = (\<lambda>opt params batch. (opt, map (\<lambda>p. p + 1) params)),
      actor_optimize = (\<lambda>opt params critic_params states. (opt, map (\<lambda>p. p + 1) params))\<rparr>"

definition example_agent :: "unit DDPG" where
  "example_agent =
     \<lparr>actor = [1], actor_target = [1], actor_optimizer = (),
      critic = [1], critic_target = [1], critic_optimizer = (),
      max_action = 10, discount = 19 / 20, tau = 1 / 200, policy_noise = 1 / 5,
      noise_clip = 1 / 2, policy_freq = 2, total_it = 0\<rparr>"

definition example_transition :: "real \<Rightarrow> transition" where
  "example_transition k =
     \<lparr>t_state = [k], t_action = [1], t_next_state = [k + 1], t_reward = k, t_done = 0\<rparr>"

text \<open>The row stored for \<open>example_transition 0\<close>, and a buffer that holds it.\<close>


definition example_row :: batch_row where
  "example_row = ([0], [1], [1], [0], [1])"

definition example_buffer :: ReplayBuffer where
  "example_buffer =
     \<lparr>max_size = 2, state_dim = 1, action_dim = 1, ptr = 1, buf_size = 1,
      buf_action = [[1], [0]], buf_state = [[0], [0]], buf_next_state = [[1], [0]],
      buf_reward = [[0], [0]], buf_not_done = [[1], [0]]\<rparr>"

text \<open>
  The value of \<open>tau * param + (1 - tau) * target_param\<close> in exact arithmetic, and the
  distance that the roundings of the soft update can put between it and the number
  stored.
\<close>

definition soft_update_exact :: "real \<Rightarrow> real \<Rightarrow> real \<Rightarrow> real" where
  "soft_update_exact tau' param target_param = tau' * param + (1 - tau') * target_param"

definition rounding_bound :: "real \<Rightarrow> real \<Rightarrow> real" where
  "rounding_bound param target_param = (\<bar>param\<bar> + \<bar>target_param\<bar>) / 2 ^ 21 + 1 / 2 ^ 147"

text \<open>
  The binary64 number nearest to 0.005, the default \<open>tau\<close> of the constructor, and an
  agent with it whose parameters are float32 numbers: after the optimiser steps of
  \<open>example_networks\<close> the critic is 3, as is its target, and the actor is 1, the float32
  number just below its target \<open>1 + 1 / 2 ^ 23\<close>. The second agent is the first after one call of
  \<open>train\<close> on \<open>example_buffer\<close>.
\<close>

definition tau_default :: real where
  "tau_default = 5764607523034235 / 1152921504606846976"

definition rounding_agent :: "unit DDPG" where
  "rounding_agent =
     example_agent\<lparr>tau := tau_default, critic := [2], critic_target := [3],
       actor := [0], actor_target := [8388609 / 8388608]\<rparr>"

definition rounding_agent_trained :: "unit DDPG" where
  "rounding_agent_trained =
     rounding_agent\<lparr>total_it := 1, critic := [3], actor := [1],
       critic_target := [12582913 / 4194304], actor_target := [8388609 / 8388608]\<rparr>"

text \<open>
  An environment for one stock over the ten days from 2020-01-01, with 10000 of
  starting money, at the opening of the first day; the same environment with a
  calendar whose only date is 2020-01-11; prices of 100 at the opening and 102 at the
  close of every day; and the spec's reading of \<open>get_new_holdings\<close>: the action is added
  to the holdings and paid from the cash.
\<close>

definition example_env :: StockEnv where
  "example_env =
     \<lparr>random_start = False,
      valid_dates = [''2020-01-01'', ''2020-01-02'', ''2020-01-03''],
      number_of_stocks = 1, stock_names = [''SPY''], max_epochs = 20,
      start_date = ''01-01-2020'', end_date = ''01-11-2020'',
      starting_amount_lower = 10000, starting_amount_upper = 10000,
      starting_amount = 10000, epochs = 0,
      state = \<lparr>cash = 10000, holdings = [0], current_date = ''2020-01-01'',
                current_time = ''Open''\<rparr>\<rparr>"

definition gap_env :: StockEnv where
  "gap_env = example_env\<lparr>valid_dates := [''2020-01-11'']\<rparr>"

definition example_prices :: price_lookup where
  "example_prices d t = Inr [if t = ''Open'' then 100 else 102]"

definition example_new_holdings :: new_holdings_fn where
  "example_new_holdings st action prices =
     Inr (map2 (+) (holdings st) action, cash st - sum_list (map2 (*) action prices))"

definition example_draws :: draws where
  "example_draws = \<lparr>money_draw = 10000, shares_draw = (\<lambda>i. 0), epoch_draw = - 1\<rparr>"

text \<open>
  The example environment after buying five shares at the opening of the first day,
  and after then holding them until the opening of the second day.
\<close>

definition example_env_1 :: StockEnv where
  "example_env_1 =
     example_env\<lparr>epochs := 1,
       state := \<lparr>cash = 9500, holdings = [5], current_date = ''2020-01-01'',
                  current_time = ''Close''\<rparr>\<rparr>"

definition example_env_2 :: StockEnv where
  "example_env_2 =
     example_env\<lparr>epochs := 2,
       state := \<lparr>cash = 9500, holdings = [5], current_date = ''2020-01-02'',
                  current_time = ''Open''\<rparr>\<rparr>"

text \<open>
  The stored done flag in the words of the specification of the training loop: zero
  while the step count of the episode is below \<open>max_epochs\<close>, the flag of the
  environment once it has reached it.
\<close>

definition done_bool_spec :: "bool \<Rightarrow> int \<Rightarrow> int \<Rightarrow> real" where
  "done_bool_spec done' episode_timesteps' max_epochs' =
     (if episode_timesteps' < max_epochs' then 0 else (if done' then 1 else 0))"

text \<open>
  Values for one iteration of the training loop: a state vector of the cash and the
  holdings; the example environment with every day in its calendar, at the close of
  the tenth day, reached by nineteen steps from the reset; an empty buffer of two rows;
  no training and no random start.
\<close>

definition example_to_numpy :: "State \<Rightarrow> real list" where
  "example_to_numpy st = cash st # holdings st"

definition last_env :: StockEnv where
  "last_env =
     example_env\<lparr>valid_dates :=
         [''2020-01-01'', ''2020-01-02'', ''2020-01-03'', ''2020-01-04'', ''2020-01-05'',
          ''2020-01-06'', ''2020-01-07'', ''2020-01-08'', ''2020-01-09'', ''2020-01-10'',
          ''2020-01-11''],
       epochs := 19,
       state := \<lparr>cash = 10000, holdings = [0], current_date = ''2020-01-10'',
                  current_time = ''Close''\<rparr>\<rparr>"

definition last_env_after :: StockEnv where
  "last_env_after =
     last_env\<lparr>epochs := 20,
       state := \<lparr>cash = 10000, holdings = [0], current_date = ''2020-01-11'',
                  current_time = ''Open''\<rparr>\<rparr>"

definition last_buffer :: ReplayBuffer where
  "last_buffer = ReplayBuffer_init 2 1 2"

definition last_vars :: "unit run_vars" where
  "last_vars =
     \<lparr>run_env = last_env, run_policy = example_agent, run_buffer = last_buffer,
      episode_reward = 0, episode_timesteps = 19, episode_num = 0\<rparr>"

definition last_input :: iteration_input where
  "last_input =
     \<lparr>sampled_action = [0], exploration_noise = [0], train_raws = [],
      reset_draws = example_draws\<rparr>"

definition last_buffer_after :: ReplayBuffer where
  "last_buffer_after =
     \<lparr>max_size = 2, state_dim = 2, action_dim = 1, ptr = 1, buf_size = 1,
      buf_action = [[0], [0]], buf_state = [[10000, 0], [0, 0]],
      buf_next_state = [[10000, 0], [0, 0]], buf_reward = [[0], [0]],
      buf_not_done = [[1], [0]]\<rparr>"

definition last_vars_after :: "unit run_vars" where
  "last_vars_after =
     \<lparr>run_env = last_env\<lparr>epochs := 0, state := state example_env\<rparr>,
      run_policy = example_agent, run_buffer = last_buffer_after,
      episode_reward = 0, episode_timesteps = 0, episode_num = 1\<rparr>"

text \<open>
  An environment over two days (four epochs) whose calendar lacks the second day, one
  step after the reset: the next step moves from the close of the first day to the
  opening of the third, which ends the episode at its second step.
\<close>

definition short_env :: StockEnv where
  "short_env =
     example_env\<lparr>valid_dates := [''2020-01-01'', ''2020-01-03''],
       end_date := ''01-03-2020'', max_epochs := 4, epochs := 1,
       state := \<lparr>cash = 10000, holdings = [0], current_date = ''2020-01-01'',
                  current_time = ''Close''\<rparr>\<rparr>"

definition short_env_after :: StockEnv where
  "short_env_after =
     short_env\<lparr>epochs := 4,
       state := \<lparr>cash = 10000, holdings = [0], current_date = ''2020-01-03'',
                  current_time = ''Open''\<rparr>\<rparr>"

definition short_vars :: "unit run_vars" where
  "short_vars =
     \<lparr>run_env = short_env, run_policy = example_agent, run_buffer = last_buffer,
      episode_reward = 0, episode_timesteps = 1, episode_num = 0\<rparr>"

definition short_vars_after :: "unit run_vars" where
  "short_vars_after =
     \<lparr>run_env = short_env\<lparr>epochs := 0, state := state example_env\<rparr>,
      run_policy = example_agent,
      run_buffer = last_buffer_after\<lparr>buf_not_done := [[0], [0]]\<rparr>,
      episode_reward = 0, episode_timesteps = 0, episode_num = 1\<rparr>"

section \<open>The replay buffer is a ring\<close>

lemma set_row_Inr:
  "set_row arr w i v = Inr arr' \<Longrightarrow> i < length arr \<and> arr' = arr[i := broadcast_row w v]"
  by (simp add: set_row_def split: if_splits)

lemma add_Inr:
  assumes "add b t = Inr b'"
  shows "row_at b' (ptr b) = stored_rows (state_dim b) (action_dim b) t"
    and "ptr b' = (ptr b + 1) mod max_size b"
    and "buf_size b' = min (buf_size b + 1) (max_size b)"
    and "j \<noteq> ptr b \<Longrightarrow> row_at b' j = row_at b j"
    and "max_size b' = max_size b" "state_dim b' = state_dim b" "action_dim b' = action_dim b"
    and "0 < max_size b"
  using assms
  by (auto simp add: add_def row_at_def stored_rows_def broadcast_row_def fits_def
           split: sum.splits if_splits dest!: set_row_Inr)

lemma init_inv: "0 < c \<Longrightarrow> buffer_inv sd ad c (ReplayBuffer_init sd ad c)"
  by (simp add: buffer_inv_def ReplayBuffer_init_def)

lemma add_ok:
  assumes "buffer_inv sd ad c b" "storable sd ad t"
  shows "\<exists>b'. add b t = Inr b' \<and> buffer_inv sd ad c b'"
  using assms
  by (simp add: buffer_inv_def storable_def add_def set_row_def fits_def)

lemma add_all_snoc:
  "add_all b (ts @ [t]) = (case add_all b ts of Inl e \<Rightarrow> Inl e | Inr b' \<Rightarrow> add b' t)"
  by (induction ts arbitrary: b) (simp_all split: sum.splits)

lemma mod_distinct:
  fixes i n c :: nat
  assumes "i < n" "n - i < c"
  shows "i mod c \<noteq> n mod c"
proof
  assume "i mod c = n mod c"
  then have "n mod c = i mod c" by simp
  moreover have "i \<le> n" using assms by simp
  ultimately have "c dvd n - i" by (simp add: mod_eq_dvd_iff_nat)
  then have "c \<le> n - i" using assms by (intro dvd_imp_le) simp_all
  then show False using assms by simp
qed

text \<open>
  After any number of inserts into a fresh buffer, each of the last \<open>c\<close> transitions sits
  in the slot of its index modulo \<open>c\<close>.
\<close>

lemma add_all_from_init:
  assumes c: "0 < c" and ok: "list_all (storable sd ad) ts"
  shows "\<exists>b. add_all (ReplayBuffer_init sd ad c) ts = Inr b \<and> buffer_inv sd ad c b
           \<and> buf_size b = min (length ts) c \<and> ptr b = length ts mod c
           \<and> (\<forall>i < length ts. length ts - i \<le> c \<longrightarrow> row_at b (i mod c) = stored_rows sd ad (ts ! i))"
  using ok
proof (induction ts rule: rev_induct)
  case Nil
  then show ?case using c by (simp add: init_inv) (simp add: ReplayBuffer_init_def)
next
  case (snoc t ts)
  then obtain b where b: "add_all (ReplayBuffer_init sd ad c) ts = Inr b" "buffer_inv sd ad c b"
      "buf_size b = min (length ts) c" "ptr b = length ts mod c"
      "\<forall>i < length ts. length ts - i \<le> c \<longrightarrow> row_at b (i mod c) = stored_rows sd ad (ts ! i)"
    by auto
  from snoc.prems have t: "storable sd ad t" by simp
  from add_ok [OF b(2) t] obtain b' where b': "add b t = Inr b'" "buffer_inv sd ad c b'" by blast
  have dims: "max_size b = c" "state_dim b = sd" "action_dim b = ad"
    using b(2) by (simp_all add: buffer_inv_def)
  note a = add_Inr [OF b'(1)]
  have 1: "add_all (ReplayBuffer_init sd ad c) (ts @ [t]) = Inr b'"
    using b(1) b'(1) by (simp add: add_all_snoc)
  have 2: "buf_size b' = min (length (ts @ [t])) c"
    using a(3) b(3) dims by simp
  have 3: "ptr b' = length (ts @ [t]) mod c"
    using a(2) b(4) dims by (simp add: mod_Suc_eq)
  have 4: "row_at b' (i mod c) = stored_rows sd ad ((ts @ [t]) ! i)"
    if i: "i < length (ts @ [t])" "length (ts @ [t]) - i \<le> c" for i
  proof (cases "i = length ts")
    case True
    then show ?thesis using a(1) b(4) dims by simp
  next
    case False
    then have lt: "i < length ts" using i by simp
    then have "length ts - i < c" using i by simp
    then have "i mod c \<noteq> ptr b" using mod_distinct [OF lt] b(4) by simp
    then have "row_at b' (i mod c) = row_at b (i mod c)" by (rule a(4))
    also have "\<dots> = stored_rows sd ad (ts ! i)" using b(5) lt i by simp
    finally show ?thesis using lt by (simp add: nth_append)
  qed
  show ?case using 1 2 3 4 b'(2) by blast
qed

text \<open>
  C4. Each \<open>add\<close> that returns has written the rows of the transition at the write
  pointer, left the other slots alone, advanced the pointer modulo the capacity and set
  the size to \<open>min (size + 1) capacity\<close>. Starting from a fresh buffer of capacity
  \<open>c > 0\<close>, every sequence of inserts of storable transitions succeeds, the size never
  exceeds \<open>c\<close>, it is \<open>c\<close> after more than \<open>c\<close> inserts, and slot 0 holds the first
  transition after 1 to \<open>c\<close> inserts and the \<open>(c+1)\<close>-th transition after \<open>c + 1\<close> inserts.
\<close>

theorem replay_buffer_ring:
  "(add b t = Inr b' \<longrightarrow>
      row_at b' (ptr b) = stored_rows (state_dim b) (action_dim b) t
    \<and> ptr b' = (ptr b + 1) mod max_size b
    \<and> buf_size b' = min (buf_size b + 1) (max_size b)
    \<and> (\<forall>j. j \<noteq> ptr b \<longrightarrow> row_at b' j = row_at b j))
 \<and> (0 < c \<and> list_all (storable sd ad) ts \<longrightarrow>
      (\<exists>b. add_all (ReplayBuffer_init sd ad c) ts = Inr b
          \<and> buf_size b \<le> c
          \<and> buf_size b = min (length ts) c
          \<and> ptr b = length ts mod c
          \<and> (c < length ts \<longrightarrow> buf_size b = c)
          \<and> (1 \<le> length ts \<and> length ts \<le> c \<longrightarrow> row_at b 0 = stored_rows sd ad (ts ! 0))
          \<and> (length ts = c + 1 \<longrightarrow> row_at b 0 = stored_rows sd ad (ts ! c))))"
proof (rule conjI; rule impI)
  assume "add b t = Inr b'"
  from add_Inr [OF this]
  show "row_at b' (ptr b) = stored_rows (state_dim b) (action_dim b) t
    \<and> ptr b' = (ptr b + 1) mod max_size b
    \<and> buf_size b' = min (buf_size b + 1) (max_size b)
    \<and> (\<forall>j. j \<noteq> ptr b \<longrightarrow> row_at b' j = row_at b j)"
    by blast
next
  assume h: "0 < c \<and> list_all (storable sd ad) ts"
  then obtain b where b: "add_all (ReplayBuffer_init sd ad c) ts = Inr b"
      "buf_size b = min (length ts) c" "ptr b = length ts mod c"
      "\<forall>i < length ts. length ts - i \<le> c \<longrightarrow> row_at b (i mod c) = stored_rows sd ad (ts ! i)"
    using add_all_from_init [of c sd ad ts] by blast
  have first: "row_at b 0 = stored_rows sd ad (ts ! 0)" if "1 \<le> length ts" "length ts \<le> c"
  proof -
    have "0 < length ts" "length ts - 0 \<le> c" using that by (cases ts; simp)+
    from b(4) [rule_format, OF this] show ?thesis by simp
  qed
  have wrapped: "row_at b 0 = stored_rows sd ad (ts ! c)" if "length ts = c + 1"
  proof -
    have "c < length ts" "length ts - c \<le> c" using that h by simp_all
    from b(4) [rule_format, OF this] show ?thesis by simp
  qed
  show "\<exists>b. add_all (ReplayBuffer_init sd ad c) ts = Inr b
          \<and> buf_size b \<le> c
          \<and> buf_size b = min (length ts) c
          \<and> ptr b = length ts mod c
          \<and> (c < length ts \<longrightarrow> buf_size b = c)
          \<and> (1 \<le> length ts \<and> length ts \<le> c \<longrightarrow> row_at b 0 = stored_rows sd ad (ts ! 0))
          \<and> (length ts = c + 1 \<longrightarrow> row_at b 0 = stored_rows sd ad (ts ! c))"
    using b(1,2,3) first wrapped by (intro exI [of _ b]) simp
qed

theorem replay_buffer_ring_witness:
  "add (ReplayBuffer_init 1 1 2) (example_transition 0) = Inr example_buffer
   \<and> row_at example_buffer 0 = stored_rows 1 1 (example_transition 0)
   \<and> ptr example_buffer = 1 \<and> buf_size example_buffer = 1
   \<and> (0::nat) < 2
   \<and> list_all (storable 1 1) [example_transition 0, example_transition 1, example_transition 2]
   \<and> (\<exists>b. add_all (ReplayBuffer_init 1 1 2)
             [example_transition 0, example_transition 1, example_transition 2] = Inr b
          \<and> buf_size b = 2 \<and> ptr b = 1
          \<and> row_at b 0 = stored_rows 1 1 (example_transition 2))"
proof -
  have a: "add (ReplayBuffer_init 1 1 2) (example_transition 0) = Inr example_buffer"
    by (simp add: add_def ReplayBuffer_init_def example_transition_def example_buffer_def
        set_row_def fits_def broadcast_row_def numeral_2_eq_2)
  have s: "(0::nat) < 2
      \<and> list_all (storable 1 1) [example_transition 0, example_transition 1, example_transition 2]"
    by (simp add: storable_def fits_def example_transition_def)
  note r = replay_buffer_ring [of "ReplayBuffer_init 1 1 2" "example_transition 0" example_buffer
      2 1 1 "[example_transition 0, example_transition 1, example_transition 2]"]
  from mp [OF conjunct1 [OF r] a]
  have 1: "row_at example_buffer 0 = stored_rows 1 1 (example_transition 0)
     \<and> ptr example_buffer = 1 \<and> buf_size example_buffer = 1"
    by (simp add: ReplayBuffer_init_def)
  from mp [OF conjunct2 [OF r] s]
  obtain b where b: "add_all (ReplayBuffer_init 1 1 2)
             [example_transition 0, example_transition 1, example_transition 2] = Inr b"
      "buf_size b = min (length [example_transition 0, example_transition 1, example_transition 2]) 2"
      "ptr b = length [example_transition 0, example_transition 1, example_transition 2] mod 2"
      "length [example_transition 0, example_transition 1, example_transition 2] = 2 + 1
         \<longrightarrow> row_at b 0 = stored_rows 1 1
               ([example_transition 0, example_transition 1, example_transition 2] ! 2)"
    by blast
  have 2: "\<exists>b. add_all (ReplayBuffer_init 1 1 2)
             [example_transition 0, example_transition 1, example_transition 2] = Inr b
          \<and> buf_size b = 2 \<and> ptr b = 1
          \<and> row_at b 0 = stored_rows 1 1 (example_transition 2)"
    using b by (intro exI [of _ b]) simp
  show ?thesis using a s 1 2 by blast
qed

section \<open>The training step of the agent\<close>

lemma pow2_powr: "pow2 e = 2 powr (real_of_int e)"
  by (simp add: pow2_def powr_int)

lemma pow2_pos: "0 < pow2 e"
  by (simp add: pow2_powr)

lemma pow2_add: "pow2 (a + b) = pow2 a * pow2 b"
  by (simp add: pow2_powr powr_add)

lemma exponent_up_spec:
  "pow2 e \<le> x \<Longrightarrow> pow2 (exponent_up n e x) \<le> x"
  by (induction n e x rule: exponent_up.induct) simp_all

lemma exponent_down_spec:
  "pow2 (exponent_down n e x) \<le> x \<or> exponent_down n e x = e - int n"
  by (induction n e x rule: exponent_down.induct) auto

lemma float_exponent_spec:
  assumes "emin \<le> 0"
  shows "pow2 (float_exponent emin emax x) \<le> \<bar>x\<bar> \<or> float_exponent emin emax x = emin"
proof (cases "1 \<le> \<bar>x\<bar>")
  case True
  then have "pow2 0 \<le> \<bar>x\<bar>" by (simp add: pow2_def)
  from exponent_up_spec [OF this] True show ?thesis by (simp add: float_exponent_def)
next
  case False
  with exponent_down_spec [of "nat (- emin)" 0 "\<bar>x\<bar>"] assms show ?thesis
    by (auto simp add: float_exponent_def)
qed

lemma round_half_even_error: "\<bar>of_int (round_half_even y) - y\<bar> \<le> 1 / 2"
proof -
  have "of_int \<lfloor>y\<rfloor> \<le> y" "y < of_int \<lfloor>y\<rfloor> + 1" by linarith+
  then show ?thesis by (auto simp add: round_half_even_def Let_def)
qed

lemma round_float_error:
  assumes "round_float p emin emax x = Some r" "emin \<le> 0"
  shows "\<bar>r - x\<bar> \<le> pow2 (- int p) * \<bar>x\<bar> + pow2 (emin - int p)"
proof -
  define e where "e = float_exponent emin emax x"
  define q where "q = pow2 (e - (int p - 1))"
  have q: "0 < q" by (simp add: q_def pow2_pos)
  have r: "r = of_int (round_half_even (x / q)) * q"
    using assms(1) by (simp add: round_float_def Let_def e_def q_def split: if_splits)
  have "r - x = (of_int (round_half_even (x / q)) - x / q) * q"
    using q by (simp add: r field_simps)
  then have "\<bar>r - x\<bar> = \<bar>of_int (round_half_even (x / q)) - x / q\<bar> * q"
    using q by (simp add: abs_mult)
  also have "\<dots> \<le> (1 / 2) * q"
    using round_half_even_error [of "x / q"] q by (intro mult_right_mono) simp_all
  also have "(1 / 2) * q = pow2 (e - int p)"
  proof -
    have "e - (int p - 1) = (e - int p) + 1" by simp
    then have "q = pow2 (e - int p) * pow2 1" unfolding q_def by (simp only: pow2_add)
    then show ?thesis by (simp add: pow2_def)
  qed
  finally have h: "\<bar>r - x\<bar> \<le> pow2 (e - int p)" .
  have e2: "pow2 (e - int p) = pow2 e * pow2 (- int p)"
    using pow2_add [of e "- int p"] by simp
  from float_exponent_spec [OF assms(2), of emax x]
  have "pow2 e \<le> \<bar>x\<bar> \<or> e = emin" by (simp add: e_def)
  then have "pow2 (e - int p) \<le> pow2 (- int p) * \<bar>x\<bar> + pow2 (emin - int p)"
  proof
    assume "pow2 e \<le> \<bar>x\<bar>"
    then have "pow2 e * pow2 (- int p) \<le> \<bar>x\<bar> * pow2 (- int p)"
      using pow2_pos [of "- int p"] by (intro mult_right_mono) simp_all
    then show ?thesis using pow2_pos [of "emin - int p"] by (simp add: e2 mult.commute)
  next
    assume "e = emin"
    moreover have "0 \<le> pow2 (- int p) * \<bar>x\<bar>" using pow2_pos [of "- int p"] by simp
    ultimately show ?thesis by simp
  qed
  with h show ?thesis by simp
qed

lemma fl32_error:
  assumes "fl32 x = Some r"
  shows "\<bar>r - x\<bar> \<le> \<bar>x\<bar> / 2 ^ 24 + 1 / 2 ^ 150"
  using round_float_error [of 24 "- 126" 127 x r] assms
  by (simp add: fl32_def pow2_def)

lemma fl64_error:
  assumes "fl64 x = Some r"
  shows "\<bar>r - x\<bar> \<le> \<bar>x\<bar> / 2 ^ 53 + 1 / 2 ^ 1075"
  using round_float_error [of 53 "- 1022" 1023 x r] assms
  by (simp add: fl64_def pow2_def)

lemma scaled_error:
  fixes c C x y u :: real
  assumes c: "\<bar>c - C\<bar> \<le> 2 * u" and C: "\<bar>C\<bar> \<le> 1" and u: "0 \<le> u" "2 * u \<le> 1"
    and y: "\<bar>y - c * x\<bar> \<le> \<bar>c * x\<bar> * u + h"
  shows "\<bar>y - C * x\<bar> \<le> 4 * u * \<bar>x\<bar> + h"
proof -
  have "\<bar>c\<bar> \<le> \<bar>C\<bar> + \<bar>c - C\<bar>" by simp
  then have c2: "\<bar>c\<bar> \<le> 2" using c C u by simp
  have "\<bar>c * x\<bar> * u = (\<bar>c\<bar> * u) * \<bar>x\<bar>" by (simp add: abs_mult)
  also have "\<dots> \<le> (2 * u) * \<bar>x\<bar>"
    using c2 u by (intro mult_right_mono) simp_all
  finally have 1: "\<bar>c * x\<bar> * u \<le> 2 * u * \<bar>x\<bar>" .
  have "\<bar>c * x - C * x\<bar> = \<bar>c - C\<bar> * \<bar>x\<bar>" by (simp add: abs_mult left_diff_distrib [symmetric])
  also have "\<dots> \<le> (2 * u) * \<bar>x\<bar>" using c by (intro mult_right_mono) simp_all
  finally have 2: "\<bar>c * x - C * x\<bar> \<le> 2 * u * \<bar>x\<bar>" .
  have "\<bar>y - C * x\<bar> \<le> \<bar>y - c * x\<bar> + \<bar>c * x - C * x\<bar>" by simp
  with y 1 2 show ?thesis by simp
qed

lemma soft_update_param_error:
  assumes r: "soft_update_param T P Q = Some r" and T: "0 < T" "T < 1"
  shows "\<bar>r - soft_update_exact T P Q\<bar> \<le> rounding_bound P Q"
proof -
  define u :: real where "u = 1 / 2 ^ 24"
  define h :: real where "h = 1 / 2 ^ 150"
  have u: "0 \<le> u" "2 * u \<le> 1" "u \<le> 1" and h: "0 \<le> h" "h \<le> u"
    by (simp_all add: u_def h_def)
  from r obtain t s64 s a b where
    t: "fl32 T = Some t" and s64: "fl64 (1 - T) = Some s64" and s: "fl32 s64 = Some s"
    and a: "fl32 (t * P) = Some a" and b: "fl32 (s * Q) = Some b" and ab: "fl32 (a + b) = Some r"
    by (auto simp add: soft_update_param_def split: option.splits)
  have et: "\<bar>t - T\<bar> \<le> 2 * u"
  proof -
    have "\<bar>T\<bar> / 2 ^ 24 \<le> u" using T by (simp add: u_def)
    with fl32_error [OF t] h show ?thesis by (simp add: h_def)
  qed
  have es: "\<bar>s - (1 - T)\<bar> \<le> 2 * u"
  proof -
    have k: "(1 / 2 ^ 1075 :: real) \<le> 1 / 2 ^ 53" by simp
    have "\<bar>1 - T\<bar> / 2 ^ 53 \<le> 1 / 2 ^ 53" using T by simp
    with fl64_error [OF s64] k have 1: "\<bar>s64 - (1 - T)\<bar> \<le> 1 / 2 ^ 52" by simp
    have "\<bar>s64\<bar> \<le> \<bar>1 - T\<bar> + \<bar>s64 - (1 - T)\<bar>" by simp
    with 1 T have 2: "\<bar>s64\<bar> \<le> 1 + 1 / 2 ^ 52" by simp
    then have "\<bar>s64\<bar> / 2 ^ 24 \<le> (1 + 1 / 2 ^ 52) / 2 ^ 24" by (simp add: divide_right_mono)
    with fl32_error [OF s] have 3: "\<bar>s - s64\<bar> \<le> (1 + 1 / 2 ^ 52) / 2 ^ 24 + 1 / 2 ^ 150"
      by simp
    have "\<bar>s - (1 - T)\<bar> \<le> \<bar>s - s64\<bar> + \<bar>s64 - (1 - T)\<bar>" by simp
    with 1 3 show ?thesis by (simp add: u_def)
  qed
  have ea: "\<bar>a - T * P\<bar> \<le> 4 * u * \<bar>P\<bar> + h"
    using fl32_error [OF a] T by (intro scaled_error [OF et _ u(1,2)]) (simp_all add: u_def h_def)
  have eb: "\<bar>b - (1 - T) * Q\<bar> \<le> 4 * u * \<bar>Q\<bar> + h"
    using fl32_error [OF b] T by (intro scaled_error [OF es _ u(1,2)]) (simp_all add: u_def h_def)
  have tp: "\<bar>T * P\<bar> \<le> \<bar>P\<bar>"
    using T mult_right_mono [of T 1 "\<bar>P\<bar>"] by (simp add: abs_mult)
  have tq: "\<bar>(1 - T) * Q\<bar> \<le> \<bar>Q\<bar>"
    using T mult_right_mono [of "1 - T" 1 "\<bar>Q\<bar>"] by (simp add: abs_mult)
  have up: "4 * u * \<bar>P\<bar> \<le> \<bar>P\<bar>" and uq: "4 * u * \<bar>Q\<bar> \<le> \<bar>Q\<bar>"
    by (simp_all add: u_def)
  have "\<bar>a + b\<bar> \<le> \<bar>a - T * P\<bar> + \<bar>b - (1 - T) * Q\<bar> + \<bar>T * P\<bar> + \<bar>(1 - T) * Q\<bar>" by simp
  with ea eb tp tq up uq have sab: "\<bar>a + b\<bar> \<le> 2 * (\<bar>P\<bar> + \<bar>Q\<bar>) + 2 * h" by simp
  have "\<bar>a + b\<bar> * u \<le> (2 * (\<bar>P\<bar> + \<bar>Q\<bar>) + 2 * h) * u"
    using sab u by (intro mult_right_mono) simp_all
  also have "\<dots> = 2 * u * (\<bar>P\<bar> + \<bar>Q\<bar>) + 2 * (h * u)" by (simp add: algebra_simps)
  also have "\<dots> \<le> 2 * u * (\<bar>P\<bar> + \<bar>Q\<bar>) + 2 * h"
  proof -
    have "h * u \<le> h * 1" using h u by (intro mult_left_mono) simp_all
    then show ?thesis by simp
  qed
  finally have 1: "\<bar>a + b\<bar> * u \<le> 2 * u * (\<bar>P\<bar> + \<bar>Q\<bar>) + 2 * h" .
  from fl32_error [OF ab] have 2: "\<bar>r - (a + b)\<bar> \<le> \<bar>a + b\<bar> * u + h"
    by (simp add: u_def h_def)
  define X where "X = u * \<bar>P\<bar>"
  define Y where "Y = u * \<bar>Q\<bar>"
  have XY: "0 \<le> X" "0 \<le> Y" using u by (simp_all add: X_def Y_def)
  have ea': "\<bar>a - T * P\<bar> \<le> 4 * X + h" using ea by (simp add: X_def)
  have eb': "\<bar>b - (1 - T) * Q\<bar> \<le> 4 * Y + h" using eb by (simp add: Y_def)
  have k1: "\<bar>a + b\<bar> * u \<le> 2 * X + 2 * Y + 2 * h"
    using 1 by (simp add: X_def Y_def algebra_simps)
  have 3: "\<bar>r - (T * P + (1 - T) * Q)\<bar>
      \<le> \<bar>r - (a + b)\<bar> + \<bar>a - T * P\<bar> + \<bar>b - (1 - T) * Q\<bar>" by simp
  from 3 2 k1 ea' eb' XY h have "\<bar>r - (T * P + (1 - T) * Q)\<bar> \<le> 8 * X + 8 * Y + 8 * h"
    by linarith
  moreover have "8 * X + 8 * Y = (\<bar>P\<bar> + \<bar>Q\<bar>) / 2 ^ 21"
    by (simp add: X_def Y_def u_def)
  moreover have "8 * h = 1 / 2 ^ 147" by (simp add: h_def)
  ultimately show ?thesis by (simp add: rounding_bound_def soft_update_exact_def)
qed

lemma those_Some:
  "those xs = Some ys \<Longrightarrow> length ys = length xs \<and> (\<forall>i < length xs. xs ! i = Some (ys ! i))"
proof (induction xs arbitrary: ys)
  case Nil
  then show ?case by simp
next
  case (Cons x xs)
  then obtain y ys' where y: "x = Some y" "those xs = Some ys'" "ys = y # ys'"
    by (auto split: option.splits)
  from Cons.IH [OF y(2)] y show ?case by (auto simp add: nth_Cons split: nat.splits)
qed

lemma soft_update_Some:
  assumes "soft_update t live target = Some new"
  shows "length new = length target"
    and "i < length live \<Longrightarrow> i < length target \<Longrightarrow>
         soft_update_param t (live ! i) (target ! i) = Some (new ! i)"
proof -
  from assms obtain ys where ys: "those (map2 (soft_update_param t) live target) = Some ys"
    "new = ys @ drop (length live) target"
    by (auto simp add: soft_update_def split: option.splits)
  from those_Some [OF ys(1)]
  have l: "length ys = min (length live) (length target)"
    and n: "\<forall>i < min (length live) (length target).
              soft_update_param t (live ! i) (target ! i) = Some (ys ! i)"
    by auto
  show "length new = length target" using l ys(2) by auto
  show "soft_update_param t (live ! i) (target ! i) = Some (new ! i)"
    if "i < length live" "i < length target"
    using that l n ys(2) by (simp add: nth_append)
qed

lemma convex_between:
  fixes a b t :: real
  assumes "0 < t" "t < 1" "a \<noteq> b"
  shows "strictly_between a b (t * b + (1 - t) * a)"
proof -
  define x where "x = t * b + (1 - t) * a"
  have e1: "x = a + t * (b - a)" and e2: "x = b - (1 - t) * (b - a)"
    by (simp_all add: x_def algebra_simps)
  have "strictly_between a b x"
  proof (cases "a < b")
    case lt: True
    have p1: "0 < t * (b - a)" using lt assms by simp
    have p2: "0 < (1 - t) * (b - a)" using lt assms by simp
    have "a < x" using p1 e1 by simp
    moreover have "x < b" using p2 e2 by simp
    ultimately show ?thesis using lt by (simp add: strictly_between_def)
  next
    case ge: False
    then have ba: "b < a" using assms by simp
    have p1: "t * (b - a) < 0" using ba assms by (simp add: mult_pos_neg)
    have p2: "(1 - t) * (b - a) < 0" using ba assms by (simp add: mult_pos_neg)
    have "x < a" using p1 e1 by simp
    moreover have "b < x" using p2 e2 by simp
    ultimately show ?thesis using ba by (simp add: strictly_between_def)
  qed
  then show ?thesis by (simp add: x_def)
qed

lemma train_targets:
  assumes "train nets ag b raws = Inr ag'"
  shows "soft_update (tau ag) (critic ag') (critic_target ag) = Some (critic_target ag')
       \<and> soft_update (tau ag) (actor ag') (actor_target ag) = Some (actor_target ag')
       \<and> total_it ag' = total_it ag + 1"
  using assms
  by (auto simp add: train_def Let_def split: sum.splits prod.splits option.splits)

lemmas float_eval = fl32_def fl64_def round_float_def float_exponent_def round_half_even_def
  pow2_def Let_def numeral_eq_Suc

lemma tau_default_rounded:
  "fl64 (5 / 1000) = Some tau_default"
  "fl32 tau_default = Some (5368709 / 1073741824)"
  "fl64 (1 - tau_default) = Some (8962163258467287 / 9007199254740992)"
  "fl32 (8962163258467287 / 9007199254740992) = Some (8346665 / 8388608)"
  by (simp_all add: float_eval tau_default_def)

lemma soft_update_param_examples:
  "soft_update_param tau_default 3 3 = Some (12582913 / 4194304)"
  "soft_update_param tau_default 1 (8388609 / 8388608) = Some (8388609 / 8388608)"
  by (simp_all add: soft_update_param_def tau_default_rounded) (simp_all add: float_eval)

lemma rounding_train:
  "train example_networks rounding_agent example_buffer [0] = Inr rounding_agent_trained"
  by (simp add: train_def sample_def row_at_def example_buffer_def rounding_agent_trained_def
      example_networks_def rounding_agent_def example_agent_def soft_update_def
      target_Q_row_def soft_update_param_examples)

text \<open>
  C1. The claim is that the target action is the target actor applied to the sampled
  next state. \<open>train\<close> applies the target actor to the sampled state: on the row
  sampled from \<open>example_buffer\<close>, whose state is 0 and whose next state is 1, the target
  it computes is 19/20, while the target of the claim is 19/10.
\<close>

theorem train_target_action_from_state:
  "sample example_buffer [0] = Inr [example_row]
   \<and> target_Q_row example_networks example_agent example_row = [19 / 20]
   \<and> target_Q_row_spec example_networks example_agent example_row = [19 / 10]"
  by (simp add: sample_def row_at_def example_buffer_def example_row_def target_Q_row_def
      target_Q_row_spec_def example_networks_def example_agent_def)

text \<open>
  C5, as amended. Every call of \<open>train\<close> that returns, whatever \<open>total_it\<close> and
  \<open>policy_freq\<close> are, has set each parameter of the two target networks that has a live
  partner to \<open>tau * live + (1 - tau) * previous target\<close> as float32 arithmetic evaluates
  it, where live is the parameter after the optimiser step of this call. For \<open>tau\<close>
  strictly between 0 and 1 the exact value of that expression lies strictly between the
  previous target value and the live value, or equals both when they are equal, and the
  number stored is within \<open>(\<bar>live\<bar> + \<bar>previous target\<bar>) / 2 ^ 21 + 1 / 2 ^ 147\<close> of it.
  A call in which the arithmetic leaves the finite numbers does not return in the model.
\<close>

theorem train_soft_update:
  assumes "train nets ag b raws = Inr ag'"
  shows "length (critic_target ag') = length (critic_target ag)
       \<and> length (actor_target ag') = length (actor_target ag)
       \<and> (\<forall>i. i < length (critic ag') \<and> i < length (critic_target ag) \<longrightarrow>
            soft_update_param (tau ag) (critic ag' ! i) (critic_target ag ! i)
              = Some (critic_target ag' ! i)
          \<and> (0 < tau ag \<and> tau ag < 1 \<longrightarrow>
               (if critic_target ag ! i = critic ag' ! i
                then soft_update_exact (tau ag) (critic ag' ! i) (critic_target ag ! i)
                       = critic ag' ! i
                else strictly_between (critic_target ag ! i) (critic ag' ! i)
                       (soft_update_exact (tau ag) (critic ag' ! i) (critic_target ag ! i)))
             \<and> \<bar>critic_target ag' ! i
                  - soft_update_exact (tau ag) (critic ag' ! i) (critic_target ag ! i)\<bar>
                 \<le> rounding_bound (critic ag' ! i) (critic_target ag ! i)))
       \<and> (\<forall>i. i < length (actor ag') \<and> i < length (actor_target ag) \<longrightarrow>
            soft_update_param (tau ag) (actor ag' ! i) (actor_target ag ! i)
              = Some (actor_target ag' ! i)
          \<and> (0 < tau ag \<and> tau ag < 1 \<longrightarrow>
               (if actor_target ag ! i = actor ag' ! i
                then soft_update_exact (tau ag) (actor ag' ! i) (actor_target ag ! i)
                       = actor ag' ! i
                else strictly_between (actor_target ag ! i) (actor ag' ! i)
                       (soft_update_exact (tau ag) (actor ag' ! i) (actor_target ag ! i)))
             \<and> \<bar>actor_target ag' ! i
                  - soft_update_exact (tau ag) (actor ag' ! i) (actor_target ag ! i)\<bar>
                 \<le> rounding_bound (actor ag' ! i) (actor_target ag ! i)))"
proof -
  note t = train_targets [OF assms]
  have exact: "\<And>a b. 0 < tau ag \<and> tau ag < 1 \<longrightarrow>
      (if a = b then soft_update_exact (tau ag) b a = b
       else strictly_between a b (soft_update_exact (tau ag) b a))"
    by (simp add: soft_update_exact_def convex_between) (simp add: algebra_simps)
  have one: "soft_update_param (tau ag) (live ! i) (target ! i) = Some (new ! i)
          \<and> (0 < tau ag \<and> tau ag < 1 \<longrightarrow>
               (if target ! i = live ! i
                then soft_update_exact (tau ag) (live ! i) (target ! i) = live ! i
                else strictly_between (target ! i) (live ! i)
                       (soft_update_exact (tau ag) (live ! i) (target ! i)))
             \<and> \<bar>new ! i - soft_update_exact (tau ag) (live ! i) (target ! i)\<bar>
                 \<le> rounding_bound (live ! i) (target ! i))"
    if u: "soft_update (tau ag) live target = Some new"
      and i: "i < length live \<and> i < length target" for live target new i
  proof -
    from soft_update_Some(2) [OF u] i
    have p: "soft_update_param (tau ag) (live ! i) (target ! i) = Some (new ! i)" by simp
    show ?thesis using p exact [of "target ! i" "live ! i"] soft_update_param_error [OF p]
      by simp
  qed
  have len: "length (critic_target ag') = length (critic_target ag)"
    "length (actor_target ag') = length (actor_target ag)"
    using t soft_update_Some(1) by blast+
  have c: "\<forall>i. i < length (critic ag') \<and> i < length (critic_target ag) \<longrightarrow>
            soft_update_param (tau ag) (critic ag' ! i) (critic_target ag ! i)
              = Some (critic_target ag' ! i)
          \<and> (0 < tau ag \<and> tau ag < 1 \<longrightarrow>
               (if critic_target ag ! i = critic ag' ! i
                then soft_update_exact (tau ag) (critic ag' ! i) (critic_target ag ! i)
                       = critic ag' ! i
                else strictly_between (critic_target ag ! i) (critic ag' ! i)
                       (soft_update_exact (tau ag) (critic ag' ! i) (critic_target ag ! i)))
             \<and> \<bar>critic_target ag' ! i
                  - soft_update_exact (tau ag) (critic ag' ! i) (critic_target ag ! i)\<bar>
                 \<le> rounding_bound (critic ag' ! i) (critic_target ag ! i))"
    using one [OF t [THEN conjunct1]] by blast
  have a: "\<forall>i. i < length (actor ag') \<and> i < length (actor_target ag) \<longrightarrow>
            soft_update_param (tau ag) (actor ag' ! i) (actor_target ag ! i)
              = Some (actor_target ag' ! i)
          \<and> (0 < tau ag \<and> tau ag < 1 \<longrightarrow>
               (if actor_target ag ! i = actor ag' ! i
                then soft_update_exact (tau ag) (actor ag' ! i) (actor_target ag ! i)
                       = actor ag' ! i
                else strictly_between (actor_target ag ! i) (actor ag' ! i)
                       (soft_update_exact (tau ag) (actor ag' ! i) (actor_target ag ! i)))
             \<and> \<bar>actor_target ag' ! i
                  - soft_update_exact (tau ag) (actor ag' ! i) (actor_target ag ! i)\<bar>
                 \<le> rounding_bound (actor ag' ! i) (actor_target ag ! i))"
    using one [OF t [THEN conjunct2, THEN conjunct1]] by blast
  from len c a show ?thesis by (intro conjI)
qed

text \<open>
  With the default \<open>tau\<close>, a live actor parameter of 1 and a previous target of
  \<open>1 + 1 / 2 ^ 23\<close>, the exact value lies strictly between the two and the number stored
  is within the bound of it.
\<close>

theorem train_soft_update_witness:
  "train example_networks rounding_agent example_buffer [0] = Inr rounding_agent_trained
   \<and> 0 < length (actor rounding_agent_trained) \<and> 0 < length (actor_target rounding_agent)
   \<and> 0 < tau rounding_agent \<and> tau rounding_agent < 1
   \<and> actor_target rounding_agent ! 0 = 8388609 / 8388608
   \<and> actor rounding_agent_trained ! 0 = 1
   \<and> soft_update_param (tau rounding_agent) (actor rounding_agent_trained ! 0)
         (actor_target rounding_agent ! 0) = Some (actor_target rounding_agent_trained ! 0)
   \<and> strictly_between (actor_target rounding_agent ! 0) (actor rounding_agent_trained ! 0)
       (soft_update_exact (tau rounding_agent) (actor rounding_agent_trained ! 0)
          (actor_target rounding_agent ! 0))
   \<and> \<bar>actor_target rounding_agent_trained ! 0
        - soft_update_exact (tau rounding_agent) (actor rounding_agent_trained ! 0)
            (actor_target rounding_agent ! 0)\<bar>
       \<le> rounding_bound (actor rounding_agent_trained ! 0) (actor_target rounding_agent ! 0)"
proof -
  note r = train_soft_update [OF rounding_train]
  have i: "0 < length (actor rounding_agent_trained) \<and> 0 < length (actor_target rounding_agent)"
    and u: "0 < tau rounding_agent \<and> tau rounding_agent < 1"
    and v: "actor_target rounding_agent ! 0 = 8388609 / 8388608"
      "actor rounding_agent_trained ! 0 = 1"
    by (simp_all add: rounding_agent_def rounding_agent_trained_def example_agent_def
        tau_default_def)
  have ne: "actor_target rounding_agent ! 0 \<noteq> actor rounding_agent_trained ! 0"
    using v by simp
  from r [THEN conjunct2, THEN conjunct2, THEN conjunct2, THEN spec, of 0] i
  have c: "soft_update_param (tau rounding_agent) (actor rounding_agent_trained ! 0)
         (actor_target rounding_agent ! 0) = Some (actor_target rounding_agent_trained ! 0)"
    and d: "0 < tau rounding_agent \<and> tau rounding_agent < 1 \<longrightarrow>
      (if actor_target rounding_agent ! 0 = actor rounding_agent_trained ! 0
       then soft_update_exact (tau rounding_agent) (actor rounding_agent_trained ! 0)
              (actor_target rounding_agent ! 0) = actor rounding_agent_trained ! 0
       else strictly_between (actor_target rounding_agent ! 0)
              (actor rounding_agent_trained ! 0)
              (soft_update_exact (tau rounding_agent) (actor rounding_agent_trained ! 0)
                 (actor_target rounding_agent ! 0)))
      \<and> \<bar>actor_target rounding_agent_trained ! 0
           - soft_update_exact (tau rounding_agent) (actor rounding_agent_trained ! 0)
               (actor_target rounding_agent ! 0)\<bar>
          \<le> rounding_bound (actor rounding_agent_trained ! 0) (actor_target rounding_agent ! 0)"
    by blast+
  from d u ne have "strictly_between (actor_target rounding_agent ! 0)
       (actor rounding_agent_trained ! 0)
       (soft_update_exact (tau rounding_agent) (actor rounding_agent_trained ! 0)
          (actor_target rounding_agent ! 0))
   \<and> \<bar>actor_target rounding_agent_trained ! 0
        - soft_update_exact (tau rounding_agent) (actor rounding_agent_trained ! 0)
            (actor_target rounding_agent ! 0)\<bar>
       \<le> rounding_bound (actor rounding_agent_trained ! 0) (actor_target rounding_agent ! 0)"
    by (simp only: if_False simp_thms)
  with rounding_train i u v c show ?thesis by blast
qed

text \<open>
  C5 as stated fails. With the default \<open>tau\<close>, a live critic parameter of 3 and a
  previous target of 3, the number stored is \<open>3 + 1 / 2 ^ 22\<close>, not the 3 that both
  were. With a live actor parameter of 1 and a previous target of \<open>1 + 1 / 2 ^ 23\<close>, the
  next float32 number, the number stored is the previous target, which is not strictly
  between the two.
\<close>

theorem train_soft_update_rounds:
  "train example_networks rounding_agent example_buffer [0] = Inr rounding_agent_trained
   \<and> 0 < tau rounding_agent \<and> tau rounding_agent < 1
   \<and> critic_target rounding_agent ! 0 = 3 \<and> critic rounding_agent_trained ! 0 = 3
   \<and> critic_target rounding_agent_trained ! 0 = 3 + 1 / 2 ^ 22
   \<and> critic_target rounding_agent_trained ! 0 \<noteq> critic rounding_agent_trained ! 0
   \<and> actor_target rounding_agent ! 0 = 1 + 1 / 2 ^ 23
   \<and> actor rounding_agent_trained ! 0 = 1
   \<and> actor_target rounding_agent_trained ! 0 = 1 + 1 / 2 ^ 23
   \<and> \<not> strictly_between (actor_target rounding_agent ! 0) (actor rounding_agent_trained ! 0)
         (actor_target rounding_agent_trained ! 0)"
  using rounding_train
  by (simp add: rounding_agent_def rounding_agent_trained_def example_agent_def tau_default_def
      strictly_between_def)

section \<open>Advancing the date\<close>

lemma search_loop_Inr:
  "search_loop v d ep i adj = Inr n \<Longrightarrow> adjusted_date_at d ep i = Inr adj \<Longrightarrow>
     i \<le> n \<and> (i < 20 \<longrightarrow> n < 20) \<and> (\<exists>a. adjusted_date_at d ep n = Inr a \<and> a \<in> set v)"
proof (induction v d ep i adj rule: search_loop.induct)
  case (1 valid date_obj ep incr adjusted_date)
  show ?case
  proof (cases "adjusted_date \<in> set valid")
    case True
    then have "n = incr" using "1.prems"(1) by (simp add: search_loop.simps)
    then show ?thesis using True "1.prems"(2) by simp
  next
    case False
    with "1.prems"(1) obtain adj' where
      a: "adjusted_date_at date_obj ep (incr + 1) = Inr adj'" and
      b: "\<not> 20 \<le> incr + 1" and
      c: "search_loop valid date_obj ep (incr + 1) adj' = Inr n"
      by (subst (asm) search_loop.simps) (auto split: sum.splits if_splits)
    from "1.IH" [OF False a b c a] show ?thesis using b by auto
  qed
qed

lemma search_loop_raise:
  "adjusted_date_at d ep i = Inr adj \<Longrightarrow> 1 \<le> i \<Longrightarrow> i \<le> 19 \<Longrightarrow>
   (\<forall>k. i \<le> k \<and> k \<le> 19 \<longrightarrow> (\<exists>a. adjusted_date_at d ep k = Inr a \<and> a \<notin> set v)) \<Longrightarrow>
   adjusted_date_at d ep 20 = Inr a20 \<Longrightarrow>
   search_loop v d ep i adj = Inl (Exception_out_of_range a20)"
proof (induction v d ep i adj rule: search_loop.induct)
  case (1 valid date_obj ep incr adjusted_date)
  have "incr \<le> incr \<and> incr \<le> 19" using "1.prems"(3) by simp
  with "1.prems"(4) obtain a0 where "adjusted_date_at date_obj ep incr = Inr a0" "a0 \<notin> set valid"
    by blast
  with "1.prems"(1) have nv: "adjusted_date \<notin> set valid" by simp
  show ?case
  proof (cases "incr = 19")
    case True
    then show ?thesis using nv "1.prems"(5) by (subst search_loop.simps) simp
  next
    case False
    then have lt: "incr + 1 \<le> 19" using "1.prems"(3) by simp
    then have "incr \<le> incr + 1 \<and> incr + 1 \<le> 19" by simp
    with "1.prems"(4) obtain adj' where
      a: "adjusted_date_at date_obj ep (incr + 1) = Inr adj'" by blast
    have b: "\<not> 20 \<le> incr + 1" using lt by simp
    have rest: "\<forall>k. incr + 1 \<le> k \<and> k \<le> 19 \<longrightarrow>
        (\<exists>a. adjusted_date_at date_obj ep k = Inr a \<and> a \<notin> set valid)"
    proof (intro allI impI)
      fix k assume "incr + 1 \<le> k \<and> k \<le> 19"
      then have "incr \<le> k \<and> k \<le> 19" by simp
      with "1.prems"(4) show "\<exists>a. adjusted_date_at date_obj ep k = Inr a \<and> a \<notin> set valid"
        by blast
    qed
    have "search_loop valid date_obj ep (incr + 1) adj' = Inl (Exception_out_of_range a20)"
      using "1.IH" [OF nv a b a _ lt rest "1.prems"(5)] "1.prems"(2) by simp
    then show ?thesis using nv a b by (subst search_loop.simps) simp
  qed
qed

lemma search_loop_agree:
  "adjusted_date_at d ep i = Inr adj \<Longrightarrow> 1 \<le> i \<Longrightarrow> i \<le> 19 \<Longrightarrow>
   (\<forall>k. i \<le> k \<and> k \<le> 19 \<longrightarrow> (\<forall>a. adjusted_date_at d ep k = Inr a \<longrightarrow> (a \<in> set v \<longleftrightarrow> a \<in> set v'))) \<Longrightarrow>
   search_loop v d ep i adj = search_loop v' d ep i adj"
proof (induction v d ep i adj rule: search_loop.induct)
  case (1 valid date_obj ep incr adjusted_date)
  have "incr \<le> incr \<and> incr \<le> 19" using "1.prems"(3) by simp
  with "1.prems"(1,4) have m: "adjusted_date \<in> set valid \<longleftrightarrow> adjusted_date \<in> set v'" by blast
  show ?case
  proof (cases "adjusted_date \<in> set valid")
    case True
    then show ?thesis using m by (simp add: search_loop.simps)
  next
    case nv: False
    show ?thesis
    proof (cases "adjusted_date_at date_obj ep (incr + 1)")
      case (Inl e)
      then show ?thesis using nv m
        by (subst search_loop.simps, subst (2) search_loop.simps) simp
    next
      case (Inr adj')
      show ?thesis
      proof (cases "20 \<le> incr + 1")
        case True
        then show ?thesis using nv m Inr
          by (subst search_loop.simps, subst (2) search_loop.simps) simp
      next
        case False
        then have lt: "incr + 1 \<le> 19" by simp
        have rest: "\<forall>k. incr + 1 \<le> k \<and> k \<le> 19 \<longrightarrow>
           (\<forall>a. adjusted_date_at date_obj ep k = Inr a \<longrightarrow> (a \<in> set valid \<longleftrightarrow> a \<in> set v'))"
        proof (intro allI impI)
          fix k a assume "incr + 1 \<le> k \<and> k \<le> 19" "adjusted_date_at date_obj ep k = Inr a"
          moreover from this have "incr \<le> k \<and> k \<le> 19" by simp
          ultimately show "a \<in> set valid \<longleftrightarrow> a \<in> set v'" using "1.prems"(4) by blast
        qed
        have "search_loop valid date_obj ep (incr + 1) adj' = search_loop v' date_obj ep (incr + 1) adj'"
          using "1.IH" [OF nv Inr False Inr _ lt rest] "1.prems"(2) by simp
        then show ?thesis using nv m Inr False
          by (subst search_loop.simps, subst (2) search_loop.simps) simp
      qed
    qed
  qed
qed

lemma adjusted_date_at_Inr:
  "adjusted_date_at d ep k = Inr a \<longleftrightarrow> (\<exists>dt. date_add_days d ((ep + k) div 2) = Inr dt \<and> a = date_str dt)"
  by (auto simp add: adjusted_date_at_def split: sum.splits)

lemma increment_date_Inr:
  assumes "increment_date env = Inr env'"
  shows "\<exists>d0 adj n. start_date_obj env = Inr d0 \<and> stock_names env \<noteq> []
           \<and> adjusted_date_at d0 (epochs env) 1 = Inr adj
           \<and> search_loop (valid_dates env) d0 (epochs env) 1 adj = Inr n
           \<and> env' = env\<lparr>epochs := epochs env + n\<rparr>"
  using assms
  by (auto simp add: increment_date_def py_index_def split: sum.splits if_splits)

lemma increment_date_epochs:
  assumes "increment_date env = Inr env'"
  shows "epochs env < epochs env'" "epochs env' \<le> epochs env + 19"
    "\<exists>d t. get_date_and_time env' = Inr (d, t) \<and> d \<in> set (valid_dates env')"
    "env' = env\<lparr>epochs := epochs env'\<rparr>"
proof -
  from increment_date_Inr [OF assms] obtain d0 adj n where
    h: "start_date_obj env = Inr d0" "adjusted_date_at d0 (epochs env) 1 = Inr adj"
       "search_loop (valid_dates env) d0 (epochs env) 1 adj = Inr n"
       "env' = env\<lparr>epochs := epochs env + n\<rparr>"
    by blast
  from search_loop_Inr [OF h(3) h(2)] obtain a where
    n: "1 \<le> n" "n < 20" "adjusted_date_at d0 (epochs env) n = Inr a" "a \<in> set (valid_dates env)"
    by auto
  show "epochs env < epochs env'" "epochs env' \<le> epochs env + 19" using h(4) n by simp_all
  show "env' = env\<lparr>epochs := epochs env'\<rparr>" using h(4) by simp
  from n(3) obtain dt where "date_add_days d0 ((epochs env + n) div 2) = Inr dt" "a = date_str dt"
    by (auto simp add: adjusted_date_at_Inr)
  then have "get_date_and_time env' = Inr (a, if epochs env' mod 2 = 0 then ''Open'' else ''Close'')"
    using h(1,4) by (simp add: get_date_and_time_def start_date_obj_def)
  then show "\<exists>d t. get_date_and_time env' = Inr (d, t) \<and> d \<in> set (valid_dates env')"
    using n(4) h(4) by simp
qed

lemma increment_date_raise:
  assumes "stock_names env \<noteq> []"
    and "\<forall>k. 1 \<le> k \<and> k \<le> 19 \<longrightarrow> (\<exists>a. date_at_offset env k = Inr a \<and> a \<notin> set (valid_dates env))"
    and "date_at_offset env 20 = Inr a20"
  shows "increment_date env = Inl (Exception_out_of_range a20)"
proof -
  from assms(3) obtain d0 where d0: "start_date_obj env = Inr d0"
    by (auto simp add: date_at_offset_def split: sum.splits)
  then have off: "\<And>k. date_at_offset env k = adjusted_date_at d0 (epochs env) k"
    by (simp add: date_at_offset_def)
  have "(1::int) \<le> 1 \<and> (1::int) \<le> 19" by simp
  with assms(2) obtain a1 where a1: "adjusted_date_at d0 (epochs env) 1 = Inr a1"
    unfolding off by blast
  have "search_loop (valid_dates env) d0 (epochs env) 1 a1 = Inl (Exception_out_of_range a20)"
    using search_loop_raise [OF a1, of "valid_dates env" a20] assms(2,3) unfolding off by simp
  then show ?thesis using d0 a1 assms(1)
    by (simp add: increment_date_def py_index_def)
qed

lemmas date_eval =
  py_int_def strip_def is_space_char_def parse_digits_def digits_value_def digit_value_def
  is_digit_char_def isdigit_def date_of_arr_def py_index_def date_new_def days_in_month_def
  is_leap_def DAYS_IN_MONTH_def DAYS_BEFORE_MONTH_def toordinal_def ymd2ord_def
  days_before_year_def days_before_month_def date_diff_days_def date_add_days_def
  MAXORDINAL_def ord2ymd_def date_str_def digit_char_def parse_date_def start_date_obj_def
  adjusted_date_at_def Let_def

lemma increment_date_agree:
  assumes "\<forall>k. 1 \<le> k \<and> k \<le> 19 \<longrightarrow>
             (\<forall>a. date_at_offset env k = Inr a \<longrightarrow> (a \<in> set (valid_dates env) \<longleftrightarrow> a \<in> set v'))"
  shows "increment_date (env\<lparr>valid_dates := v'\<rparr>)
           = map_sum id (\<lambda>e. e\<lparr>valid_dates := v'\<rparr>) (increment_date env)"
proof (cases "start_date_obj env")
  case (Inl e)
  then show ?thesis by (simp add: increment_date_def start_date_obj_def)
next
  case d0: (Inr d0)
  then have off: "\<And>k. date_at_offset env k = adjusted_date_at d0 (epochs env) k"
    by (simp add: date_at_offset_def)
  show ?thesis
  proof (cases "adjusted_date_at d0 (epochs env) 1")
    case (Inl e)
    then show ?thesis using d0
      by (simp add: increment_date_def start_date_obj_def py_index_def)
  next
    case a1: (Inr a1)
    have "search_loop (valid_dates env) d0 (epochs env) 1 a1 = search_loop v' d0 (epochs env) 1 a1"
      using search_loop_agree [OF a1, of "valid_dates env" v'] assms unfolding off by simp
    then show ?thesis using d0 a1
      by (simp add: increment_date_def start_date_obj_def py_index_def split: sum.splits)
  qed
qed

lemma int_1_19:
  "1 \<le> k \<and> k \<le> (19::int) \<Longrightarrow>
   k \<in> {1, 2, 3, 4, 5, 6, 7, 8, 9, 10, 11, 12, 13, 14, 15, 16, 17, 18, 19}"
  by simp presburger

lemma gap_start: "start_date_obj gap_env = Inr \<lparr>year = 2020, month = 1, day = 1\<rparr>"
  by (simp add: gap_env_def example_env_def date_eval)

lemma gap_offsets:
  "\<forall>k \<in> {1, 2, 3, 4, 5, 6, 7, 8, 9, 10, 11, 12, 13, 14, 15, 16, 17, 18, 19}.
     \<exists>a. date_at_offset gap_env k = Inr a \<and> a \<notin> set (valid_dates gap_env)"
  apply (simp add: date_at_offset_def gap_start)
  apply (simp add: gap_env_def example_env_def date_eval)
  done

lemma gap_none_valid:
  "\<forall>k. 1 \<le> k \<and> k \<le> 19 \<longrightarrow>
     (\<exists>a. date_at_offset gap_env k = Inr a \<and> a \<notin> set (valid_dates gap_env))"
  using gap_offsets int_1_19 by blast

lemma gap_none_valid_list:
  "list_all (\<lambda>k. \<exists>a. date_at_offset gap_env k = Inr a \<and> a \<notin> set (valid_dates gap_env))
     [1, 2, 3, 4, 5, 6, 7, 8, 9, 10, 11, 12, 13, 14, 15, 16, 17, 18, 19]"
  using gap_offsets by (simp only: list_all_iff list.set)

lemma gap_offset_20: "date_at_offset gap_env 20 = Inr ''2020-01-11''"
  by (simp add: date_at_offset_def gap_env_def example_env_def date_eval)

lemma example_increment: "increment_date example_env = Inr (example_env\<lparr>epochs := 1\<rparr>)"
proof -
  have d: "start_date_obj example_env = Inr \<lparr>year = 2020, month = 1, day = 1\<rparr>"
    by (simp add: example_env_def date_eval)
  have a: "adjusted_date_at \<lparr>year = 2020, month = 1, day = 1\<rparr> (epochs example_env) 1
             = Inr ''2020-01-01''"
    by (simp add: example_env_def date_eval)
  have s: "search_loop (valid_dates example_env) \<lparr>year = 2020, month = 1, day = 1\<rparr>
             (epochs example_env) 1 ''2020-01-01'' = Inr 1"
    by (subst search_loop.simps) (simp add: example_env_def)
  show ?thesis using d a s
    by (simp add: increment_date_def py_index_def) (simp add: example_env_def)
qed

text \<open>
  C6. A call of \<open>increment_date\<close> that returns has changed nothing but \<open>epochs\<close>, which
  is strictly larger than before, and the date of the environment afterwards is in the
  set of valid dates. When none of the dates 1 to 19 epochs ahead is a valid date (and
  the date 20 epochs ahead exists), the call raises the out-of-range exception.
\<close>

theorem increment_date_advances:
  "(increment_date env = Inr env' \<longrightarrow>
      epochs env < epochs env'
    \<and> (\<exists>d t. get_date_and_time env' = Inr (d, t) \<and> d \<in> set (valid_dates env'))
    \<and> env' = env\<lparr>epochs := epochs env'\<rparr>)
 \<and> (stock_names env \<noteq> []
    \<and> (\<forall>k. 1 \<le> k \<and> k \<le> 19 \<longrightarrow>
          (\<exists>a. date_at_offset env k = Inr a \<and> a \<notin> set (valid_dates env)))
    \<and> (\<exists>a. date_at_offset env 20 = Inr a) \<longrightarrow>
      (\<exists>a. increment_date env = Inl (Exception_out_of_range a)))"
proof (rule conjI; rule impI)
  assume "increment_date env = Inr env'"
  from increment_date_epochs [OF this]
  show "epochs env < epochs env'
    \<and> (\<exists>d t. get_date_and_time env' = Inr (d, t) \<and> d \<in> set (valid_dates env'))
    \<and> env' = env\<lparr>epochs := epochs env'\<rparr>"
    by blast
next
  assume h: "stock_names env \<noteq> []
    \<and> (\<forall>k. 1 \<le> k \<and> k \<le> 19 \<longrightarrow>
          (\<exists>a. date_at_offset env k = Inr a \<and> a \<notin> set (valid_dates env)))
    \<and> (\<exists>a. date_at_offset env 20 = Inr a)"
  then obtain a where "date_at_offset env 20 = Inr a" by blast
  with h have "increment_date env = Inl (Exception_out_of_range a)"
    by (intro increment_date_raise) blast+
  then show "\<exists>a. increment_date env = Inl (Exception_out_of_range a)" by blast
qed

theorem increment_date_advances_witness:
  "increment_date example_env = Inr (example_env\<lparr>epochs := 1\<rparr>)
   \<and> epochs example_env < epochs (example_env\<lparr>epochs := 1\<rparr>)
   \<and> (\<exists>d t. get_date_and_time (example_env\<lparr>epochs := 1\<rparr>) = Inr (d, t)
            \<and> d \<in> set (valid_dates (example_env\<lparr>epochs := 1\<rparr>)))
   \<and> stock_names gap_env \<noteq> []
   \<and> list_all (\<lambda>k. \<exists>a. date_at_offset gap_env k = Inr a \<and> a \<notin> set (valid_dates gap_env))
         [1, 2, 3, 4, 5, 6, 7, 8, 9, 10, 11, 12, 13, 14, 15, 16, 17, 18, 19]
   \<and> (\<exists>a. date_at_offset gap_env 20 = Inr a)
   \<and> (\<exists>a. increment_date gap_env = Inl (Exception_out_of_range a))"
proof -
  note r1 = increment_date_advances [of example_env "example_env\<lparr>epochs := 1\<rparr>",
      THEN conjunct1, THEN mp, OF example_increment]
  have n: "stock_names gap_env \<noteq> []" by (simp add: gap_env_def example_env_def)
  have e: "\<exists>a. date_at_offset gap_env 20 = Inr a" using gap_offset_20 by blast
  have "\<exists>a. increment_date gap_env = Inl (Exception_out_of_range a)"
    by (rule increment_date_advances [of gap_env, THEN conjunct2, THEN mp])
       (use n gap_none_valid e in blast)
  with r1 n gap_none_valid_list e example_increment show ?thesis by blast
qed

text \<open>
  C10. The result of \<open>increment_date\<close> depends on the calendar only through the dates 1
  to 19 epochs ahead: two calendars that agree on these give the same result. So when
  none of them is a valid date, the call raises the out-of-range exception, with the
  date 20 epochs ahead in its message, although that date is a valid date.
\<close>

theorem increment_date_never_tests_offset_20:
  "((\<forall>k. 1 \<le> k \<and> k \<le> 19 \<longrightarrow>
       (\<forall>a. date_at_offset env k = Inr a \<longrightarrow> (a \<in> set (valid_dates env) \<longleftrightarrow> a \<in> set v'))) \<longrightarrow>
      increment_date (env\<lparr>valid_dates := v'\<rparr>)
        = map_sum id (\<lambda>e. e\<lparr>valid_dates := v'\<rparr>) (increment_date env))
 \<and> (stock_names env \<noteq> []
    \<and> (\<forall>k. 1 \<le> k \<and> k \<le> 19 \<longrightarrow>
          (\<exists>a. date_at_offset env k = Inr a \<and> a \<notin> set (valid_dates env)))
    \<and> date_at_offset env 20 = Inr a20 \<and> a20 \<in> set (valid_dates env) \<longrightarrow>
      increment_date env = Inl (Exception_out_of_range a20))"
proof (rule conjI; rule impI)
  assume "\<forall>k. 1 \<le> k \<and> k \<le> 19 \<longrightarrow>
       (\<forall>a. date_at_offset env k = Inr a \<longrightarrow> (a \<in> set (valid_dates env) \<longleftrightarrow> a \<in> set v'))"
  then show "increment_date (env\<lparr>valid_dates := v'\<rparr>)
        = map_sum id (\<lambda>e. e\<lparr>valid_dates := v'\<rparr>) (increment_date env)"
    by (rule increment_date_agree)
next
  assume "stock_names env \<noteq> []
    \<and> (\<forall>k. 1 \<le> k \<and> k \<le> 19 \<longrightarrow>
          (\<exists>a. date_at_offset env k = Inr a \<and> a \<notin> set (valid_dates env)))
    \<and> date_at_offset env 20 = Inr a20 \<and> a20 \<in> set (valid_dates env)"
  then show "increment_date env = Inl (Exception_out_of_range a20)"
    by (intro increment_date_raise) blast+
qed

theorem increment_date_never_tests_offset_20_witness:
  "list_all (\<lambda>k. \<exists>a. date_at_offset gap_env k = Inr a \<and> a \<notin> set (valid_dates gap_env))
     [1, 2, 3, 4, 5, 6, 7, 8, 9, 10, 11, 12, 13, 14, 15, 16, 17, 18, 19]
   \<and> increment_date (gap_env\<lparr>valid_dates := []\<rparr>)
        = map_sum id (\<lambda>e. e\<lparr>valid_dates := []\<rparr>) (increment_date gap_env)
   \<and> stock_names gap_env \<noteq> []
   \<and> date_at_offset gap_env 20 = Inr ''2020-01-11''
   \<and> ''2020-01-11'' \<in> set (valid_dates gap_env)
   \<and> increment_date gap_env = Inl (Exception_out_of_range ''2020-01-11'')"
proof -
  have n: "stock_names gap_env \<noteq> []" and v: "''2020-01-11'' \<in> set (valid_dates gap_env)"
    by (simp_all add: gap_env_def example_env_def)
  have agree: "\<forall>k. 1 \<le> k \<and> k \<le> 19 \<longrightarrow>
       (\<forall>a. date_at_offset gap_env k = Inr a \<longrightarrow> (a \<in> set (valid_dates gap_env) \<longleftrightarrow> a \<in> set []))"
    using gap_none_valid by fastforce
  note r = increment_date_never_tests_offset_20 [of gap_env "[]" "''2020-01-11''"]
  from r [THEN conjunct1, THEN mp, OF agree]
  have 1: "increment_date (gap_env\<lparr>valid_dates := []\<rparr>)
        = map_sum id (\<lambda>e. e\<lparr>valid_dates := []\<rparr>) (increment_date gap_env)" .
  have 2: "increment_date gap_env = Inl (Exception_out_of_range ''2020-01-11'')"
    by (rule r [THEN conjunct2, THEN mp]) (use n gap_none_valid gap_offset_20 v in blast)
  from gap_none_valid_list 1 n gap_offset_20 v 2 show ?thesis by blast
qed

section \<open>Dates at construction\<close>

lemma initialize_date_Assigned:
  assumes "initialize_date s e = Inr (Assigned m s' e')"
  shows "\<exists>date1 date2 d1 d2. int_list (re_split_hyphen s) = Inr date1
           \<and> int_list (re_split_hyphen e) = Inr date2
           \<and> date_of_arr date1 = Inr d1 \<and> date_of_arr date2 = Inr d2
           \<and> m = 2 * date_diff_days d2 d1 \<and> 0 \<le> date_diff_days d2 d1 \<and> s' = s \<and> e' = e"
  using assms
  by (auto simp add: initialize_date_def Let_def split: sum.splits loop_exit.splits if_splits)

lemma date_of_arr_Inr:
  assumes "date_of_arr arr = Inr d"
  shows "\<exists>m dd y rest. arr = m # dd # y # rest \<and> date_new y m dd = Inr d
           \<and> d = \<lparr>year = y, month = m, day = dd\<rparr>"
proof -
  from assms obtain m dd y rest where arr: "arr = m # dd # y # rest"
    by (cases arr; cases "tl arr"; cases "tl (tl arr)")
       (auto simp add: date_of_arr_def py_index_def split: sum.splits if_splits)
  with assms have "date_new y m dd = Inr d"
    by (simp add: date_of_arr_def py_index_def)
  moreover from this have "d = \<lparr>year = y, month = m, day = dd\<rparr>"
    by (simp add: date_new_def split: if_splits)
  ultimately show ?thesis using arr by blast
qed

lemma increment_date_fields:
  assumes "increment_date env = Inr env'"
  shows "max_epochs env' = max_epochs env" "start_date env' = start_date env"
    "end_date env' = end_date env" "starting_amount env' = starting_amount env"
    "state env' = state env" "valid_dates env' = valid_dates env"
  using increment_date_epochs(4) [OF assms]
  by (metis StockEnv.select_convs StockEnv.surjective StockEnv.update_convs(11))+

lemma increment_date_shape:
  "increment_date env = Inr env' \<Longrightarrow> \<exists>ep. env' = env\<lparr>epochs := ep\<rparr>"
  using increment_date_epochs(4) by blast

lemma initialize_starting_epoch_shape:
  assumes "initialize_starting_epoch dr env = Inr env'"
  shows "\<exists>ep. env' = env\<lparr>epochs := ep\<rparr>"
  using assms
  by (auto simp add: initialize_starting_epoch_def randint_def
      split: if_splits sum.splits dest!: increment_date_shape)

lemma reset_shape:
  assumes "reset gsp dr env init = Inr env'"
  shows "\<exists>ep st v. env' = env\<lparr>epochs := ep, state := st, starting_amount := v\<rparr>
           \<and> State_calculate_portfolio_value gsp st = Inr v"
  using assms
  by (auto simp add: reset_def Let_def split: sum.splits prod.splits
      dest!: initialize_starting_epoch_shape)

lemma StockEnv_init_fields:
  assumes "StockEnv_init gsp dr valid names s e lower upper rs = Inr env'"
  shows "\<exists>m. initialize_date s e = Inr (Assigned m s e) \<and> max_epochs env' = m
           \<and> start_date env' = s \<and> end_date env' = e"
proof -
  from assms obtain m s' e' env0 where
    i: "initialize_date s e = Inr (Assigned m s' e')" and
    r: "reset gsp dr env0 True = Inr env'" and
    f: "max_epochs env0 = m" "start_date env0 = s'" "end_date env0 = e'"
    by (auto simp add: StockEnv_init_def split: sum.splits init_result.splits)
  from initialize_date_Assigned [OF i] have "s' = s" "e' = e" by auto
  moreover from reset_shape [OF r] f have "max_epochs env' = m" "start_date env' = s'" "end_date env' = e'"
    by auto
  ultimately show ?thesis using i by simp
qed

lemma example_initialize_date:
  "initialize_date ''01-01-2020'' ''01-11-2020'' = Inr (Assigned 20 ''01-01-2020'' ''01-11-2020'')"
  by (simp add: initialize_date_def date_eval)

lemma increment_from_reset:
  assumes "start_date env = ''01-01-2020''" "stock_names env \<noteq> []"
    "''2020-01-01'' \<in> set (valid_dates env)"
  shows "increment_date (env\<lparr>epochs := - 1\<rparr>) = Inr (env\<lparr>epochs := 0\<rparr>)"
proof -
  let ?e = "env\<lparr>epochs := - 1\<rparr>"
  have d: "start_date_obj ?e = Inr \<lparr>year = 2020, month = 1, day = 1\<rparr>"
    using assms(1) by (simp add: date_eval)
  have a: "adjusted_date_at \<lparr>year = 2020, month = 1, day = 1\<rparr> (epochs ?e) 1 = Inr ''2020-01-01''"
    by (simp add: date_eval)
  have s: "search_loop (valid_dates ?e) \<lparr>year = 2020, month = 1, day = 1\<rparr>
             (epochs ?e) 1 ''2020-01-01'' = Inr 1"
    using assms(3) by (subst search_loop.simps) simp
  show ?thesis using d a s assms(2)
    by (simp add: increment_date_def py_index_def)
qed

lemma example_reset: "reset example_prices example_draws example_env False = Inr example_env"
proof -
  have i: "increment_date (example_env\<lparr>epochs := - 1\<rparr>) = Inr (example_env\<lparr>epochs := 0\<rparr>)"
    by (rule increment_from_reset) (simp_all add: example_env_def)
  have g: "get_date_and_time (example_env\<lparr>epochs := 0\<rparr>) = Inr (''2020-01-01'', ''Open'')"
    by (simp add: get_date_and_time_def example_env_def date_eval)
  show ?thesis using i g
    by (simp add: reset_def starting_money_and_shares_def initialize_starting_epoch_def
        State_reset_def State_calculate_portfolio_value_def example_prices_def np_sum_mult_def)
       (simp add: example_env_def)
qed

lemma example_init:
  "StockEnv_init example_prices example_draws [''2020-01-01'', ''2020-01-02'', ''2020-01-03'']
     [''SPY''] ''01-01-2020'' ''01-11-2020'' 10000 10000 False = Inr example_env"
proof -
  let ?e0 = "\<lparr>random_start = False,
      valid_dates = [''2020-01-01'', ''2020-01-02'', ''2020-01-03''],
      number_of_stocks = length [''SPY''], stock_names = [''SPY''], max_epochs = 20,
      start_date = ''01-01-2020'', end_date = ''01-11-2020'',
      starting_amount_lower = 10000, starting_amount_upper = 10000,
      starting_amount = real_of_int 10000, epochs = 0,
      state = State_new 0 [] [] []\<rparr>"
  have i: "increment_date (?e0\<lparr>epochs := - 1\<rparr>) = Inr (?e0\<lparr>epochs := 0\<rparr>)"
    by (rule increment_from_reset) simp_all
  have g: "get_date_and_time (?e0\<lparr>epochs := 0\<rparr>) = Inr (''2020-01-01'', ''Open'')"
    by (simp add: get_date_and_time_def date_eval)
  have "reset example_prices example_draws ?e0 True = Inr example_env"
    using i g
    by (simp add: reset_def starting_money_and_shares_def initialize_starting_epoch_def
        State_new_def State_calculate_portfolio_value_def example_prices_def np_sum_mult_def)
       (simp add: example_env_def)
  then show ?thesis
    by (simp add: StockEnv_init_def example_initialize_date)
qed

text \<open>
  C7. The claim is that construction with a malformed or non-positive date component
  raises the date-range error. For a component that is not a digit string, and for a
  month or day of zero, \<open>initialize_date\<close> executes \<open>return date_is_valid\<close>: it returns
  \<open>False\<close> and raises nothing. The constructor drops that value, and construction ends
  later, in \<open>reset\<close>, with an \<open>AttributeError\<close> for the \<open>start_date\<close> that was never
  assigned. An end date before the start date does raise \<open>ValueError\<close>.
\<close>

theorem malformed_date_returns_false:
  "initialize_date ''1a-01-2020'' ''01-11-2020'' = Inr (Returned False)
   \<and> initialize_date ''00-01-2020'' ''01-11-2020'' = Inr (Returned False)
   \<and> StockEnv_init gsp dr valid names ''1a-01-2020'' ''01-11-2020'' 10000 50000 False
       = Inl AttributeError
   \<and> initialize_date ''01-11-2020'' ''01-01-2020'' = Inl ValueError"
  by (simp add: initialize_date_def StockEnv_init_def starting_money_and_shares_def date_eval)

lemma initialize_date_parse:
  assumes "initialize_date s e = Inr (Assigned m s' e')"
  shows "\<exists>d1 d2. parse_date s = Inr d1 \<and> parse_date e = Inr d2 \<and> m = 2 * date_diff_days d2 d1"
  using initialize_date_Assigned [OF assms] by (auto simp add: parse_date_def)

text \<open>
  C3. \<open>is_done\<close> holds exactly when \<open>epochs\<close> has reached \<open>max_epochs\<close>. In every
  environment that the constructor returns, \<open>max_epochs\<close> is twice the number of days
  from the parsed start date to the parsed end date. The strings 01-01-2020 and
  01-11-2020 parse to the first and the eleventh of January 2020, ten days apart, and
  give \<open>max_epochs = 20\<close>.
\<close>

theorem is_done_and_max_epochs:
  "is_done env = (max_epochs env \<le> epochs env)
   \<and> (StockEnv_init gsp dr valid names s e lower upper rs = Inr env' \<longrightarrow>
        (\<exists>d1 d2. parse_date s = Inr d1 \<and> parse_date e = Inr d2
            \<and> max_epochs env' = 2 * date_diff_days d2 d1))
   \<and> parse_date ''01-01-2020'' = Inr \<lparr>year = 2020, month = 1, day = 1\<rparr>
   \<and> parse_date ''01-11-2020'' = Inr \<lparr>year = 2020, month = 1, day = 11\<rparr>
   \<and> date_diff_days \<lparr>year = 2020, month = 1, day = 11\<rparr> \<lparr>year = 2020, month = 1, day = 1\<rparr> = 10
   \<and> initialize_date ''01-01-2020'' ''01-11-2020'' = Inr (Assigned 20 ''01-01-2020'' ''01-11-2020'')"
proof -
  have 1: "is_done env = (max_epochs env \<le> epochs env)" by (simp add: is_done_def)
  have 2: "StockEnv_init gsp dr valid names s e lower upper rs = Inr env' \<longrightarrow>
        (\<exists>d1 d2. parse_date s = Inr d1 \<and> parse_date e = Inr d2
            \<and> max_epochs env' = 2 * date_diff_days d2 d1)"
  proof
    assume "StockEnv_init gsp dr valid names s e lower upper rs = Inr env'"
    from StockEnv_init_fields [OF this] obtain m where
      "initialize_date s e = Inr (Assigned m s e)" "max_epochs env' = m" by blast
    with initialize_date_parse show "\<exists>d1 d2. parse_date s = Inr d1 \<and> parse_date e = Inr d2
            \<and> max_epochs env' = 2 * date_diff_days d2 d1" by blast
  qed
  have 3: "parse_date ''01-01-2020'' = Inr \<lparr>year = 2020, month = 1, day = 1\<rparr>"
    "parse_date ''01-11-2020'' = Inr \<lparr>year = 2020, month = 1, day = 11\<rparr>"
    "date_diff_days \<lparr>year = 2020, month = 1, day = 11\<rparr> \<lparr>year = 2020, month = 1, day = 1\<rparr> = 10"
    by (simp_all add: date_eval)
  show ?thesis using 1 2 3 example_initialize_date by blast
qed

theorem is_done_and_max_epochs_witness:
  "StockEnv_init example_prices example_draws [''2020-01-01'', ''2020-01-02'', ''2020-01-03'']
     [''SPY''] ''01-01-2020'' ''01-11-2020'' 10000 10000 False = Inr example_env
   \<and> (\<exists>d1 d2. parse_date ''01-01-2020'' = Inr d1 \<and> parse_date ''01-11-2020'' = Inr d2
          \<and> max_epochs example_env = 2 * date_diff_days d2 d1)
   \<and> max_epochs example_env = 20
   \<and> \<not> is_done example_env \<and> is_done (example_env\<lparr>epochs := 20\<rparr>)"
proof -
  note r = is_done_and_max_epochs [of _ example_prices example_draws
      "[''2020-01-01'', ''2020-01-02'', ''2020-01-03'']" "[''SPY'']" "''01-01-2020''"
      "''01-11-2020''" 10000 10000 False example_env]
  from r [of example_env, THEN conjunct2, THEN conjunct1, THEN mp, OF example_init]
  have 1: "\<exists>d1 d2. parse_date ''01-01-2020'' = Inr d1 \<and> parse_date ''01-11-2020'' = Inr d2
          \<and> max_epochs example_env = 2 * date_diff_days d2 d1" .
  have 2: "max_epochs example_env = 20" by (simp add: example_env_def)
  have 3: "\<not> is_done example_env"
    using r [of example_env, THEN conjunct1] by (simp add: example_env_def)
  have 4: "is_done (example_env\<lparr>epochs := 20\<rparr>)"
    using r [of "example_env\<lparr>epochs := 20\<rparr>", THEN conjunct1] by (simp add: example_env_def)
  from example_init 1 2 3 4 show ?thesis by blast
qed

lemma get_date_and_time_Inr:
  assumes "get_date_and_time env = Inr (ds, t)"
  shows "\<exists>d0 dt. parse_date (start_date env) = Inr d0
           \<and> date_add_days d0 (epochs env div 2) = Inr dt \<and> ds = date_str dt
           \<and> t = (if epochs env mod 2 = 0 then ''Open'' else ''Close'')"
  using assms
  by (auto simp add: get_date_and_time_def start_date_obj_def Let_def split: sum.splits)

lemma parse_date_Inr:
  assumes "parse_date s = Inr d"
  shows "\<exists>m dd y rest. int_list (re_split_hyphen s) = Inr (m # dd # y # rest)
           \<and> date_new y m dd = Inr \<lparr>year = y, month = m, day = dd\<rparr>
           \<and> d = \<lparr>year = y, month = m, day = dd\<rparr>"
proof -
  from assms obtain arr where a: "int_list (re_split_hyphen s) = Inr arr" "date_of_arr arr = Inr d"
    by (auto simp add: parse_date_def split: sum.splits)
  from date_of_arr_Inr [OF a(2)] a(1) show ?thesis by auto
qed

text \<open>
  C8. For every pair of date strings that \<open>initialize_date\<close> accepts, the first token of
  each string is the month, the second the day and the third the year of the date that
  enters the day count; \<open>get_date_and_time\<close> reads the start date the same way
  before adding \<open>epochs // 2\<close> days.
\<close>

theorem date_strings_are_month_day_year:
  "(initialize_date s e = Inr (Assigned m s' e') \<longrightarrow>
      (\<exists>m1 d1 y1 r1 m2 d2 y2 r2.
          int_list (re_split_hyphen s) = Inr (m1 # d1 # y1 # r1)
        \<and> int_list (re_split_hyphen e) = Inr (m2 # d2 # y2 # r2)
        \<and> date_new y1 m1 d1 = Inr \<lparr>year = y1, month = m1, day = d1\<rparr>
        \<and> date_new y2 m2 d2 = Inr \<lparr>year = y2, month = m2, day = d2\<rparr>
        \<and> m = 2 * (ymd2ord y2 m2 d2 - ymd2ord y1 m1 d1)))
 \<and> (get_date_and_time env = Inr (ds, t) \<longrightarrow>
      (\<exists>m1 d1 y1 r1 dt.
          int_list (re_split_hyphen (start_date env)) = Inr (m1 # d1 # y1 # r1)
        \<and> date_new y1 m1 d1 = Inr \<lparr>year = y1, month = m1, day = d1\<rparr>
        \<and> date_add_days \<lparr>year = y1, month = m1, day = d1\<rparr> (epochs env div 2) = Inr dt
        \<and> ds = date_str dt))"
proof (rule conjI; rule impI)
  assume "initialize_date s e = Inr (Assigned m s' e')"
  from initialize_date_parse [OF this] obtain p1 p2 where
    p: "parse_date s = Inr p1" "parse_date e = Inr p2" "m = 2 * date_diff_days p2 p1" by blast
  from parse_date_Inr [OF p(1)] parse_date_Inr [OF p(2)] p(3)
  show "\<exists>m1 d1 y1 r1 m2 d2 y2 r2.
          int_list (re_split_hyphen s) = Inr (m1 # d1 # y1 # r1)
        \<and> int_list (re_split_hyphen e) = Inr (m2 # d2 # y2 # r2)
        \<and> date_new y1 m1 d1 = Inr \<lparr>year = y1, month = m1, day = d1\<rparr>
        \<and> date_new y2 m2 d2 = Inr \<lparr>year = y2, month = m2, day = d2\<rparr>
        \<and> m = 2 * (ymd2ord y2 m2 d2 - ymd2ord y1 m1 d1)"
    by (fastforce simp add: date_diff_days_def toordinal_def)
next
  assume "get_date_and_time env = Inr (ds, t)"
  from get_date_and_time_Inr [OF this] obtain d0 dt where
    g: "parse_date (start_date env) = Inr d0" "date_add_days d0 (epochs env div 2) = Inr dt"
       "ds = date_str dt" by blast
  from parse_date_Inr [OF g(1)] g(2,3)
  show "\<exists>m1 d1 y1 r1 dt.
          int_list (re_split_hyphen (start_date env)) = Inr (m1 # d1 # y1 # r1)
        \<and> date_new y1 m1 d1 = Inr \<lparr>year = y1, month = m1, day = d1\<rparr>
        \<and> date_add_days \<lparr>year = y1, month = m1, day = d1\<rparr> (epochs env div 2) = Inr dt
        \<and> ds = date_str dt"
    by fastforce
qed

theorem date_strings_are_month_day_year_witness:
  "initialize_date ''02-03-2020'' ''03-02-2020'' = Inr (Assigned 56 ''02-03-2020'' ''03-02-2020'')
   \<and> int_list (re_split_hyphen ''02-03-2020'') = Inr [2, 3, 2020]
   \<and> int_list (re_split_hyphen ''03-02-2020'') = Inr [3, 2, 2020]
   \<and> date_new 2020 2 3 = Inr \<lparr>year = 2020, month = 2, day = 3\<rparr>
   \<and> date_new 2020 3 2 = Inr \<lparr>year = 2020, month = 3, day = 2\<rparr>
   \<and> (56::int) = 2 * (ymd2ord 2020 3 2 - ymd2ord 2020 2 3)
   \<and> get_date_and_time (example_env\<lparr>start_date := ''02-03-2020'', epochs := 4\<rparr>)
       = Inr (''2020-02-05'', ''Open'')
   \<and> (\<exists>dt. date_add_days \<lparr>year = 2020, month = 2, day = 3\<rparr> 2 = Inr dt
          \<and> ''2020-02-05'' = date_str dt)"
proof -
  let ?env = "example_env\<lparr>start_date := ''02-03-2020'', epochs := 4\<rparr>"
  have i: "initialize_date ''02-03-2020'' ''03-02-2020''
             = Inr (Assigned 56 ''02-03-2020'' ''03-02-2020'')"
    by (simp add: initialize_date_def date_eval)
  have l: "int_list (re_split_hyphen ''02-03-2020'') = Inr [2, 3, 2020]"
    "int_list (re_split_hyphen ''03-02-2020'') = Inr [3, 2, 2020]"
    by (simp_all add: date_eval)
  have g: "get_date_and_time ?env = Inr (''2020-02-05'', ''Open'')"
    by (simp add: get_date_and_time_def example_env_def date_eval)
  have s: "start_date ?env = ''02-03-2020''" "epochs ?env div 2 = 2" by simp_all
  note r = date_strings_are_month_day_year [of "''02-03-2020''" "''03-02-2020''" 56
      "''02-03-2020''" "''03-02-2020''" ?env "''2020-02-05''" "''Open''"]
  from r [THEN conjunct1, THEN mp, OF i] l
  have 1: "date_new 2020 2 3 = Inr \<lparr>year = 2020, month = 2, day = 3\<rparr>
   \<and> date_new 2020 3 2 = Inr \<lparr>year = 2020, month = 3, day = 2\<rparr>
   \<and> (56::int) = 2 * (ymd2ord 2020 3 2 - ymd2ord 2020 2 3)"
    by auto
  from r [THEN conjunct2, THEN mp, OF g] l s
  have 2: "\<exists>dt. date_add_days \<lparr>year = 2020, month = 2, day = 3\<rparr> 2 = Inr dt
          \<and> ''2020-02-05'' = date_str dt"
    by auto
  from i l 1 g 2 show ?thesis by blast
qed

section \<open>The reward of a step\<close>

lemma get_date_and_time_state:
  "get_date_and_time (env\<lparr>state := st\<rparr>) = get_date_and_time env"
  by (simp add: get_date_and_time_def start_date_obj_def cong: sum.case_cong)

lemma np_sum_mult_Inr:
  "np_sum_mult hs ps = Inr v \<Longrightarrow> v = sum_list (map2 (*) hs ps) \<and> length hs = length ps"
  by (simp add: np_sum_mult_def split: if_splits)

lemma step_Inr:
  assumes "step gsp gnh env a = Inr (env', r, d)"
  shows "\<exists>nd nt p v. get_date_and_time env' = Inr (nd, nt) \<and> gsp nd nt = Inr p
           \<and> np_sum_mult (holdings (state env')) p = Inr v
           \<and> r = cash (state env') + v - starting_amount env
           \<and> starting_amount env' = starting_amount env
           \<and> current_date (state env') = nd \<and> current_time (state env') = nt
           \<and> d = is_done env'"
proof -
  from assms obtain cd ct po nh rm env1 nd nt p v where
    h: "get_date_and_time env = Inr (cd, ct)" "gsp cd ct = Inr po"
       "gnh (state env) a po = Inr (nh, rm)" "increment_date env = Inr env1"
       "get_date_and_time env1 = Inr (nd, nt)" "gsp nd nt = Inr p"
       "np_sum_mult nh p = Inr v"
       "env' = env1\<lparr>state := advance_state (state env1) rm nh nd nt\<rparr>"
       "r = rm + v - starting_amount env1" "d = is_done env'"
    by (auto simp add: step_def calculate_reward_def Let_def split: sum.splits prod.splits)
  from increment_date_shape [OF h(4)] have s: "starting_amount env1 = starting_amount env"
    by auto
  show ?thesis using h s by (simp add: advance_state_def get_date_and_time_state)
qed

lemma steps_starting_amount:
  "steps gsp gnh env as = Inr env' \<Longrightarrow> starting_amount env' = starting_amount env"
proof (induction as arbitrary: env)
  case Nil
  then show ?case by simp
next
  case (Cons a as)
  then obtain env1 r d where s: "step gsp gnh env a = Inr (env1, r, d)"
      "steps gsp gnh env1 as = Inr env'"
    by (auto split: sum.splits)
  from step_Inr [OF s(1)] Cons.IH [OF s(2)] show ?case by auto
qed

text \<open>
  C2. Take any environment as \<open>reset\<close> returns it, any sequence of steps from there
  that return, and one more step that returns. The reward of that step is the cash of
  the state after the step, plus the sum of the products of the holdings after the step
  with the prices at the date and time after the advance, minus the portfolio value that
  \<open>reset\<close> computed for its state: the profit since the beginning of the episode, whatever
  the number of steps in between. Rewards are reals here, not floating-point numbers.
\<close>

theorem step_reward_is_profit_since_reset:
  assumes "reset gsp dr env0 init = Inr env1"
    and "steps gsp gnh env1 actions = Inr env2"
    and "step gsp gnh env2 action = Inr (env3, reward, done')"
  shows "\<exists>v0 d t p. State_calculate_portfolio_value gsp (state env1) = Inr v0
           \<and> get_date_and_time env3 = Inr (d, t) \<and> gsp d t = Inr p
           \<and> length (holdings (state env3)) = length p
           \<and> reward = cash (state env3) + sum_list (map2 (*) (holdings (state env3)) p) - v0"
proof -
  from reset_shape [OF assms(1)]
  have v0: "State_calculate_portfolio_value gsp (state env1) = Inr (starting_amount env1)"
    by auto
  from steps_starting_amount [OF assms(2)] have "starting_amount env2 = starting_amount env1" .
  with step_Inr [OF assms(3)] v0 show ?thesis
    by (auto dest!: np_sum_mult_Inr)
qed

lemma example_increment_1:
  "increment_date (example_env\<lparr>epochs := 1\<rparr>) = Inr (example_env\<lparr>epochs := 2\<rparr>)"
proof -
  have d: "start_date_obj (example_env\<lparr>epochs := 1\<rparr>) = Inr \<lparr>year = 2020, month = 1, day = 1\<rparr>"
    by (simp add: example_env_def date_eval)
  have a: "adjusted_date_at \<lparr>year = 2020, month = 1, day = 1\<rparr> 1 1 = Inr ''2020-01-02''"
    by (simp add: date_eval)
  have s: "search_loop (valid_dates example_env) \<lparr>year = 2020, month = 1, day = 1\<rparr>
             1 1 ''2020-01-02'' = Inr 1"
    by (subst search_loop.simps) (simp add: example_env_def)
  show ?thesis using d a s
    by (simp add: increment_date_def py_index_def) (simp add: example_env_def)
qed

lemma example_dates:
  "get_date_and_time example_env = Inr (''2020-01-01'', ''Open'')"
  "get_date_and_time (example_env\<lparr>epochs := 1\<rparr>) = Inr (''2020-01-01'', ''Close'')"
  "get_date_and_time (example_env\<lparr>epochs := 2\<rparr>) = Inr (''2020-01-02'', ''Open'')"
  by (simp_all add: get_date_and_time_def example_env_def date_eval)

lemma example_step_1:
  "step example_prices example_new_holdings example_env [5] = Inr (example_env_1, 10, False)"
  using example_increment example_dates
  by (simp add: step_def example_prices_def example_new_holdings_def calculate_reward_def
      np_sum_mult_def advance_state_def is_done_def example_env_1_def)
     (simp add: example_env_def)

lemma increment_date_state:
  "increment_date (env\<lparr>state := st\<rparr>)
     = map_sum id (\<lambda>e. e\<lparr>state := st\<rparr>) (increment_date env)"
  by (simp add: increment_date_def start_date_obj_def split: sum.splits)

lemma example_step_2:
  "step example_prices example_new_holdings example_env_1 [0] = Inr (example_env_2, 0, False)"
proof -
  have e: "example_env_1 = (example_env\<lparr>epochs := 1\<rparr>)\<lparr>state :=
             \<lparr>cash = 9500, holdings = [5], current_date = ''2020-01-01'',
              current_time = ''Close''\<rparr>\<rparr>"
    by (simp add: example_env_1_def)
  show ?thesis unfolding e using example_increment_1 example_dates
    by (simp add: step_def increment_date_state get_date_and_time_state
        example_prices_def example_new_holdings_def calculate_reward_def
        np_sum_mult_def advance_state_def is_done_def example_env_2_def)
       (simp add: example_env_def)
qed

text \<open>
  In the example the episode starts with 10000. Buying five shares at 100 leaves a
  portfolio worth 10010 at the close, and the reward of that step is 10. The next step
  trades nothing and ends at the opening price of 100: the portfolio is worth 10000, and
  the reward is 0, the profit since the reset, where the change over the step is -10.
\<close>

theorem step_reward_is_profit_since_reset_witness:
  "reset example_prices example_draws example_env False = Inr example_env
   \<and> steps example_prices example_new_holdings example_env [[5]] = Inr example_env_1
   \<and> step example_prices example_new_holdings example_env_1 [0] = Inr (example_env_2, 0, False)
   \<and> State_calculate_portfolio_value example_prices (state example_env) = Inr 10000
   \<and> get_date_and_time example_env_2 = Inr (''2020-01-02'', ''Open'')
   \<and> example_prices ''2020-01-02'' ''Open'' = Inr [100]
   \<and> length (holdings (state example_env_2)) = length [100::real]
   \<and> (0::real) = cash (state example_env_2)
         + sum_list (map2 (*) (holdings (state example_env_2)) [100]) - 10000"
proof -
  have s: "steps example_prices example_new_holdings example_env [[5]] = Inr example_env_1"
    by (simp add: example_step_1)
  from step_reward_is_profit_since_reset [OF example_reset s example_step_2]
  obtain v0 d t p where
    h: "State_calculate_portfolio_value example_prices (state example_env) = Inr v0"
       "get_date_and_time example_env_2 = Inr (d, t)" "example_prices d t = Inr p"
       "length (holdings (state example_env_2)) = length p"
       "0 = cash (state example_env_2) + sum_list (map2 (*) (holdings (state example_env_2)) p) - v0"
    by blast
  have v: "State_calculate_portfolio_value example_prices (state example_env) = Inr 10000"
    by (simp add: State_calculate_portfolio_value_def example_env_def example_prices_def
        np_sum_mult_def)
  have g: "get_date_and_time example_env_2 = Inr (''2020-01-02'', ''Open'')"
    using example_dates(3) by (simp add: example_env_2_def get_date_and_time_state)
  have p: "example_prices ''2020-01-02'' ''Open'' = Inr [100]"
    by (simp add: example_prices_def)
  from h v g p have "v0 = 10000" "p = [100]" by simp_all
  with h example_reset s example_step_2 v g p show ?thesis by simp
qed

section \<open>The done flag stored with a transition\<close>

lemma add_not_done:
  assumes "add b tr = Inr b'"
  shows "ptr b < length (buf_not_done b') \<and> buf_not_done b' ! ptr b = [1 - t_done tr]"
  using assms
  by (auto simp add: add_def broadcast_row_def
           split: sum.splits if_splits dest!: set_row_Inr)

text \<open>
  C9, as amended. In every iteration of the training loop that returns, the row
  written to \<open>not_done\<close> at the write pointer is one minus the stored done flag, and
  the stored done flag is the flag that \<open>step\<close> returned (\<open>is_done\<close> of the
  environment after the step) when the step count of the episode, this step included,
  is below \<open>max_epochs\<close>, and zero when the step count has reached \<open>max_epochs\<close>.
\<close>

theorem stored_done_flag:
  assumes "run_iteration gsp gnh to_numpy nets vars t inp = Inr vars'"
  shows "\<exists>env1 reward done'.
           step gsp gnh (run_env vars) (choose_action to_numpy nets vars t inp)
             = Inr (env1, reward, done')
           \<and> done' = is_done env1
           \<and> ptr (run_buffer vars) < length (buf_not_done (run_buffer vars'))
           \<and> buf_not_done (run_buffer vars') ! ptr (run_buffer vars)
               = [1 - (if episode_timesteps vars + 1 < max_epochs env1
                       then (if done' then 1 else 0) else 0)]"
proof -
  from assms obtain env1 reward done' buffer1 where
    s: "step gsp gnh (run_env vars) (choose_action to_numpy nets vars t inp)
          = Inr (env1, reward, done')"
    and a: "add (run_buffer vars)
              \<lparr>t_state = to_numpy (state env1),
               t_action = choose_action to_numpy nets vars t inp,
               t_next_state = to_numpy (state env1), t_reward = reward,
               t_done = done_bool_of done' (episode_timesteps vars + 1) (max_epochs env1)\<rparr>
             = Inr buffer1"
    and b: "run_buffer vars' = buffer1"
    by (auto simp add: run_iteration_def Let_def split: sum.splits prod.splits if_splits)
  from step_Inr [OF s] have d: "done' = is_done env1" by blast
  from add_not_done [OF a] s d b show ?thesis
    by (simp add: done_bool_of_def)
qed

lemma last_increment: "increment_date last_env = Inr (last_env\<lparr>epochs := 20\<rparr>)"
proof -
  have d: "start_date_obj last_env = Inr \<lparr>year = 2020, month = 1, day = 1\<rparr>"
    by (simp add: last_env_def example_env_def date_eval)
  have a: "adjusted_date_at \<lparr>year = 2020, month = 1, day = 1\<rparr> 19 1 = Inr ''2020-01-11''"
    by (simp add: date_eval)
  have s: "search_loop (valid_dates last_env) \<lparr>year = 2020, month = 1, day = 1\<rparr>
             19 1 ''2020-01-11'' = Inr 1"
    by (subst search_loop.simps) (simp add: last_env_def example_env_def)
  show ?thesis using d a s
    by (simp add: increment_date_def py_index_def) (simp add: last_env_def example_env_def)
qed

lemma last_dates:
  "get_date_and_time last_env = Inr (''2020-01-10'', ''Close'')"
  "get_date_and_time (last_env\<lparr>epochs := 20\<rparr>) = Inr (''2020-01-11'', ''Open'')"
  "get_date_and_time (last_env\<lparr>epochs := 0\<rparr>) = Inr (''2020-01-01'', ''Open'')"
  by (simp_all add: get_date_and_time_def last_env_def example_env_def date_eval)

lemma last_step:
  "step example_prices example_new_holdings last_env [0] = Inr (last_env_after, 0, True)"
  using last_increment last_dates
  by (simp add: step_def example_prices_def example_new_holdings_def calculate_reward_def
      np_sum_mult_def advance_state_def is_done_def last_env_after_def)
     (simp add: last_env_def example_env_def)

lemma last_reset:
  "reset example_prices example_draws last_env_after False
     = Inr (last_env\<lparr>epochs := 0, state := state example_env\<rparr>)"
proof -
  have i: "increment_date (last_env_after\<lparr>epochs := - 1\<rparr>)
      = Inr (last_env_after\<lparr>epochs := 0\<rparr>)"
    by (rule increment_from_reset) (simp_all add: last_env_after_def last_env_def example_env_def)
  have g: "get_date_and_time (last_env_after\<lparr>epochs := 0\<rparr>) = Inr (''2020-01-01'', ''Open'')"
    by (simp add: get_date_and_time_def last_env_after_def last_env_def example_env_def
        date_eval)
  show ?thesis using i g
    by (simp add: reset_def starting_money_and_shares_def initialize_starting_epoch_def
        State_reset_def State_calculate_portfolio_value_def example_prices_def np_sum_mult_def)
       (simp add: last_env_after_def last_env_def example_env_def)
qed

lemma last_add:
  "add last_buffer
     \<lparr>t_state = [10000, 0], t_action = [0], t_next_state = [10000, 0], t_reward = 0,
      t_done = d\<rparr>
   = Inr (last_buffer_after\<lparr>buf_not_done := [[1 - d], [0]]\<rparr>)"
  by (simp add: add_def last_buffer_def ReplayBuffer_init_def set_row_def fits_def broadcast_row_def
      last_buffer_after_def numeral_2_eq_2)

lemma last_vars_fields:
  "run_env last_vars = last_env" "run_buffer last_vars = last_buffer"
  "episode_timesteps last_vars = 19" "run_policy last_vars = example_agent"
  "episode_num last_vars = 0" "reset_draws last_input = example_draws"
  "choose_action example_to_numpy example_networks last_vars 0 last_input = [0]"
  "example_to_numpy (state last_env_after) = [10000, 0]" "max_epochs last_env_after = 20"
  by (simp_all add: last_vars_def last_input_def choose_action_def START_TIMESTEPS_def
      example_to_numpy_def last_env_after_def last_env_def example_env_def)

lemma last_iteration:
  "run_iteration example_prices example_new_holdings example_to_numpy example_networks
     last_vars 0 last_input = Inr last_vars_after"
  by (simp add: run_iteration_def Let_def last_vars_fields last_step done_bool_of_def
      last_add last_reset START_TIMESTEPS_def last_vars_after_def)
     (simp add: last_buffer_after_def)

text \<open>
  C9 as stated fails. In the twentieth step of an episode of twenty epochs the
  environment reports the end of the episode, the step count has reached \<open>max_epochs\<close>,
  and the flag stored is 0 (the row of \<open>not_done\<close> is 1), where the statement gives the
  flag of the environment, 1.
\<close>

theorem stored_done_flag_zero_at_max_length:
  "run_iteration example_prices example_new_holdings example_to_numpy example_networks
     last_vars 0 last_input = Inr last_vars_after
   \<and> step example_prices example_new_holdings (run_env last_vars) [0]
       = Inr (last_env_after, 0, True)
   \<and> is_done last_env_after
   \<and> episode_timesteps last_vars + 1 = max_epochs last_env_after
   \<and> buf_not_done (run_buffer last_vars_after) ! ptr (run_buffer last_vars) = [1 - 0]
   \<and> done_bool_spec True (episode_timesteps last_vars + 1) (max_epochs last_env_after) = 1
   \<and> buf_not_done (run_buffer last_vars_after) ! ptr (run_buffer last_vars)
       \<noteq> [1 - done_bool_spec True (episode_timesteps last_vars + 1) (max_epochs last_env_after)]"
  using last_iteration last_step
  by (simp add: last_vars_def last_vars_after_def last_buffer_after_def last_buffer_def
      ReplayBuffer_init_def done_bool_spec_def is_done_def last_env_after_def last_env_def example_env_def)

lemma short_increment: "increment_date short_env = Inr (short_env\<lparr>epochs := 4\<rparr>)"
proof -
  have d: "start_date_obj short_env = Inr \<lparr>year = 2020, month = 1, day = 1\<rparr>"
    by (simp add: short_env_def example_env_def date_eval)
  have a: "adjusted_date_at \<lparr>year = 2020, month = 1, day = 1\<rparr> 1 1 = Inr ''2020-01-02''"
    by (simp add: date_eval)
  have s: "search_loop (valid_dates short_env) \<lparr>year = 2020, month = 1, day = 1\<rparr>
             1 1 ''2020-01-02'' = Inr 3"
    apply (subst search_loop.simps)
    apply (simp add: short_env_def example_env_def date_eval)
    apply (subst search_loop.simps)
    apply (simp add: date_eval)
    apply (subst search_loop.simps)
    apply (simp add: date_eval)
    done
  show ?thesis using d a s
    by (simp add: increment_date_def py_index_def) (simp add: short_env_def example_env_def)
qed

lemma short_dates:
  "get_date_and_time short_env = Inr (''2020-01-01'', ''Close'')"
  "get_date_and_time (short_env\<lparr>epochs := 4\<rparr>) = Inr (''2020-01-03'', ''Open'')"
  by (simp_all add: get_date_and_time_def short_env_def example_env_def date_eval)

lemma short_step:
  "step example_prices example_new_holdings short_env [0] = Inr (short_env_after, 0, True)"
  using short_increment short_dates
  by (simp add: step_def example_prices_def example_new_holdings_def calculate_reward_def
      np_sum_mult_def advance_state_def is_done_def short_env_after_def)
     (simp add: short_env_def example_env_def)

lemma short_reset:
  "reset example_prices example_draws short_env_after False
     = Inr (short_env\<lparr>epochs := 0, state := state example_env\<rparr>)"
proof -
  have i: "increment_date (short_env_after\<lparr>epochs := - 1\<rparr>)
      = Inr (short_env_after\<lparr>epochs := 0\<rparr>)"
    by (rule increment_from_reset)
       (simp_all add: short_env_after_def short_env_def example_env_def)
  have g: "get_date_and_time (short_env_after\<lparr>epochs := 0\<rparr>) = Inr (''2020-01-01'', ''Open'')"
    by (simp add: get_date_and_time_def short_env_after_def short_env_def example_env_def
        date_eval)
  show ?thesis using i g
    by (simp add: reset_def starting_money_and_shares_def initialize_starting_epoch_def
        State_reset_def State_calculate_portfolio_value_def example_prices_def np_sum_mult_def)
       (simp add: short_env_after_def short_env_def example_env_def)
qed

lemma short_vars_fields:
  "run_env short_vars = short_env" "run_buffer short_vars = last_buffer"
  "episode_timesteps short_vars = 1" "run_policy short_vars = example_agent"
  "episode_num short_vars = 0"
  "choose_action example_to_numpy example_networks short_vars 0 last_input = [0]"
  "example_to_numpy (state short_env_after) = [10000, 0]" "max_epochs short_env_after = 4"
  by (simp_all add: short_vars_def last_input_def choose_action_def START_TIMESTEPS_def
      example_to_numpy_def short_env_after_def short_env_def example_env_def)

lemma short_iteration:
  "run_iteration example_prices example_new_holdings example_to_numpy example_networks
     short_vars 0 last_input = Inr short_vars_after"
  by (simp add: run_iteration_def Let_def short_vars_fields last_vars_fields(6) short_step
      done_bool_of_def last_add short_reset START_TIMESTEPS_def short_vars_after_def)

text \<open>
  In the environment whose calendar lacks a day the episode ends at its second step,
  below \<open>max_epochs = 4\<close>, and the flag stored is that of the environment, 1 (the row of
  \<open>not_done\<close> is 0).
\<close>

theorem stored_done_flag_witness:
  "run_iteration example_prices example_new_holdings example_to_numpy example_networks
     short_vars 0 last_input = Inr short_vars_after
   \<and> step example_prices example_new_holdings (run_env short_vars)
         (choose_action example_to_numpy example_networks short_vars 0 last_input)
       = Inr (short_env_after, 0, True)
   \<and> is_done short_env_after
   \<and> episode_timesteps short_vars + 1 < max_epochs short_env_after
   \<and> ptr (run_buffer short_vars) < length (buf_not_done (run_buffer short_vars_after))
   \<and> buf_not_done (run_buffer short_vars_after) ! ptr (run_buffer short_vars) = [1 - 1]"
proof -
  have s: "step example_prices example_new_holdings (run_env short_vars)
         (choose_action example_to_numpy example_networks short_vars 0 last_input)
       = Inr (short_env_after, 0, True)"
    by (simp add: short_vars_fields short_step)
  have l: "episode_timesteps short_vars + 1 < max_epochs short_env_after"
    by (simp add: short_vars_fields)
  from stored_done_flag [OF short_iteration] s l
  have "is_done short_env_after
     \<and> ptr (run_buffer short_vars) < length (buf_not_done (run_buffer short_vars_after))
     \<and> buf_not_done (run_buffer short_vars_after) ! ptr (run_buffer short_vars) = [1 - 1]"
    by simp
  with short_iteration s l show ?thesis by simp
qed

end
